theory Spec2Isabelle
  imports Complex_Main "HOL-Library.Log_Nat"
begin

section \<open>JavaScript values used by the route module\<close>

text \<open>
  The development embeds \<^verbatim>\<open>app/routes/app._index.jsx\<close>. The file is present in two
  listings: the first one (lines 1 to 1187) and a second one (lines 1188 to 2444) that adds
  the B2B context lookup and changes how an error-bearing GraphQL response is treated.
  Where the two listings agree there is one definition; where they differ the definitions
  carry the suffix 1 or 2.

  Strings are lists of 8-bit code units (read as Latin-1). A JavaScript number is a
  \<open>jsnum\<close>: \<open>NaN\<close>, the two infinities, or a finite double, kept as the rational
  it denotes. Reading a numeric literal and adding two numbers round to the nearest
  double, ties to even (\<open>to_double\<close>); comparisons are exact.
\<close>

datatype jsnum = NaN | PInf | NInf | Fin rat

text \<open>\<^verbatim>\<open>Number.isFinite(n)\<close>.\<close>

fun isFinite :: "jsnum \<Rightarrow> bool" where
  "isFinite (Fin q) = True"
| "isFinite n = False"

text \<open>\<^verbatim>\<open>a <= b\<close> on numbers: false as soon as one side is \<open>NaN\<close>.\<close>

fun js_le :: "jsnum \<Rightarrow> jsnum \<Rightarrow> bool" where
  "js_le NaN b = False"
| "js_le a NaN = False"
| "js_le NInf b = True"
| "js_le a PInf = True"
| "js_le (Fin a) (Fin b) = (a \<le> b)"
| "js_le a b = False"

text \<open>
  Rounding to the nearest double, ties to even. \<open>pow2 k\<close> is 2 to the power \<open>k\<close>;
  \<open>exponent_of a\<close> is the \<open>e\<close> with \<open>2^e \<le> a < 2^(e+1)\<close> for a positive \<open>a\<close>,
  found from the bit lengths of numerator and denominator. The significand has 53
  bits, so the last place is \<open>2^(e-52)\<close>, and never below \<open>2^-1074\<close> (subnormals). A
  magnitude that rounds to \<open>2^1024\<close> or lies above it is an infinity.
\<close>

definition pow2 :: "int \<Rightarrow> rat" where
  "pow2 k = (if 0 \<le> k then 2 ^ nat k else 1 / 2 ^ nat (- k))"

definition round_even :: "rat \<Rightarrow> int" where
  "round_even x =
     (let f = \<lfloor>x\<rfloor>; d = x - of_int f
      in if d < 1 / 2 then f
         else if 1 / 2 < d then f + 1
         else if even f then f else f + 1)"

definition exponent_of :: "rat \<Rightarrow> int" where
  "exponent_of a =
     (let k = bitlen (fst (quotient_of a)) - bitlen (snd (quotient_of a))
      in if pow2 k \<le> a then k else k - 1)"

definition to_double :: "rat \<Rightarrow> jsnum" where
  "to_double q =
     (if q = 0 then Fin 0
      else (let a = \<bar>q\<bar>;
                e = exponent_of a;
                p = max (e - 52) (- 1074);
                n = round_even (a / pow2 p)
            in if 1024 \<le> e \<or> (e = 1023 \<and> n = 2 ^ 53)
               then (if 0 < q then PInf else NInf)
               else Fin (if 0 < q then of_int n * pow2 p else - (of_int n * pow2 p))))"

text \<open>\<^verbatim>\<open>a + b\<close> on numbers.\<close>

fun js_add :: "jsnum \<Rightarrow> jsnum \<Rightarrow> jsnum" where
  "js_add NaN b = NaN"
| "js_add a NaN = NaN"
| "js_add PInf NInf = NaN"
| "js_add NInf PInf = NaN"
| "js_add PInf b = PInf"
| "js_add NInf b = NInf"
| "js_add a PInf = PInf"
| "js_add a NInf = NInf"
| "js_add (Fin a) (Fin b) = to_double (a + b)"

subsection \<open>Strings\<close>

text \<open>
  White space and line terminators among the 8-bit code units: TAB, LF, VT, FF, CR,
  SP and NBSP. \<^verbatim>\<open>String.prototype.trim\<close> and the string-to-number conversion strip them
  at both ends.
\<close>

definition is_ws :: "char \<Rightarrow> bool" where
  "is_ws c = ((of_char c :: nat) \<in> {9, 10, 11, 12, 13, 32, 160})"

definition trim :: "string \<Rightarrow> string" where
  "trim s = rev (dropWhile is_ws (rev (dropWhile is_ws s)))"

definition lower_char :: "char \<Rightarrow> char" where
  "lower_char c =
     (let n = (of_char c :: nat)
      in if (65 \<le> n \<and> n \<le> 90) \<or> (192 \<le> n \<and> n \<le> 222 \<and> n \<noteq> 215)
         then char_of (n + 32) else c)"

definition toLowerCase :: "string \<Rightarrow> string" where
  "toLowerCase s = map lower_char s"

text \<open>\<^verbatim>\<open>s.startsWith(p)\<close>.\<close>

definition startsWith :: "string \<Rightarrow> string \<Rightarrow> bool" where
  "startsWith s p = (take (length p) s = p)"

text \<open>\<^verbatim>\<open>s.split("/").pop()\<close>: the text after the last slash (all of it without one).\<close>

definition split_pop :: "string \<Rightarrow> string" where
  "split_pop s = rev (takeWhile (\<lambda>c. c \<noteq> CHR ''/'') (rev s))"

text \<open>
  \<^verbatim>\<open>s.replace(pat, rep)\<close> with a string pattern: the first occurrence only.
\<close>

fun replace_first :: "string \<Rightarrow> string \<Rightarrow> string \<Rightarrow> string" where
  "replace_first pat rep [] = (if pat = [] then rep else [])"
| "replace_first pat rep (c # cs) =
     (if startsWith (c # cs) pat then rep @ drop (length pat) (c # cs)
      else c # replace_first pat rep cs)"

subsection \<open>String to number\<close>

text \<open>
  \<^verbatim>\<open>Number(s)\<close> on a string follows the StringNumericLiteral grammar: optional white
  space around a decimal literal (sign, digits, fraction, exponent, or \<^verbatim>\<open>Infinity\<close>) or
  an unsigned binary, octal or hexadecimal integer; the empty string is 0 and anything
  else is \<open>NaN\<close>. The value the literal denotes is rounded to a double.
\<close>

definition digit_of :: "char \<Rightarrow> nat option" where
  "digit_of c =
     (let n = (of_char c :: nat)
      in if 48 \<le> n \<and> n \<le> 57 then Some (n - 48)
         else if 97 \<le> n \<and> n \<le> 102 then Some (n - 87)
         else if 65 \<le> n \<and> n \<le> 70 then Some (n - 55)
         else None)"

definition is_digit :: "nat \<Rightarrow> char \<Rightarrow> bool" where
  "is_digit b c = (case digit_of c of Some d \<Rightarrow> d < b | None \<Rightarrow> False)"

definition digits_value :: "nat \<Rightarrow> string \<Rightarrow> nat" where
  "digits_value b s =
     foldl (\<lambda>acc c. acc * b + (case digit_of c of Some d \<Rightarrow> d | None \<Rightarrow> 0)) 0 s"

definition split_sign :: "string \<Rightarrow> bool \<times> string" where
  "split_sign s =
     (case s of
        [] \<Rightarrow> (False, s)
      | c # cs \<Rightarrow>
          if c = CHR ''-'' then (True, cs)
          else if c = CHR ''+'' then (False, cs)
          else (False, s))"

definition parse_exponent :: "string \<Rightarrow> int option" where
  "parse_exponent s =
     (case split_sign s of
        (neg, ds) \<Rightarrow>
          if ds \<noteq> [] \<and> list_all (is_digit 10) ds
          then Some (if neg then - int (digits_value 10 ds) else int (digits_value 10 ds))
          else None)"

definition parse_mantissa :: "string \<Rightarrow> rat option" where
  "parse_mantissa m =
     (let ip = takeWhile (is_digit 10) m;
          r = dropWhile (is_digit 10) m
      in case r of
           [] \<Rightarrow> if ip = [] then None else Some (of_nat (digits_value 10 ip))
         | c # fp \<Rightarrow>
             if c = CHR ''.'' \<and> list_all (is_digit 10) fp \<and> (ip \<noteq> [] \<or> fp \<noteq> [])
             then Some (of_nat (digits_value 10 ip)
                        + of_nat (digits_value 10 fp) / 10 ^ length fp)
             else None)"

definition is_exp_mark :: "char \<Rightarrow> bool" where
  "is_exp_mark c = (c = CHR ''e'' \<or> c = CHR ''E'')"

definition parse_unsigned_decimal :: "string \<Rightarrow> rat option" where
  "parse_unsigned_decimal u =
     (let m = takeWhile (\<lambda>c. \<not> is_exp_mark c) u;
          r = dropWhile (\<lambda>c. \<not> is_exp_mark c) u
      in case parse_mantissa m of
           None \<Rightarrow> None
         | Some q \<Rightarrow>
             (case r of
                [] \<Rightarrow> Some q
              | mark # ex \<Rightarrow>
                  (case parse_exponent ex of
                     None \<Rightarrow> None
                   | Some e \<Rightarrow>
                       Some (if 0 \<le> e then q * 10 ^ nat e else q / 10 ^ nat (- e)))))"

definition parse_decimal_literal :: "string \<Rightarrow> jsnum" where
  "parse_decimal_literal t =
     (case split_sign t of
        (neg, u) \<Rightarrow>
          if u = ''Infinity'' then (if neg then NInf else PInf)
          else (case parse_unsigned_decimal u of
                  None \<Rightarrow> NaN
                | Some q \<Rightarrow> to_double (if neg then - q else q)))"

definition radix_of :: "char \<Rightarrow> nat option" where
  "radix_of x =
     (if x = CHR ''x'' \<or> x = CHR ''X'' then Some 16
      else if x = CHR ''o'' \<or> x = CHR ''O'' then Some 8
      else if x = CHR ''b'' \<or> x = CHR ''B'' then Some 2
      else None)"

definition parse_radix_literal :: "string \<Rightarrow> nat option" where
  "parse_radix_literal t =
     (case t of
        z # x # ds \<Rightarrow>
          (case radix_of x of
             None \<Rightarrow> None
           | Some b \<Rightarrow>
               if z = CHR ''0'' \<and> ds \<noteq> [] \<and> list_all (is_digit b) ds
               then Some (digits_value b ds) else None)
      | _ \<Rightarrow> None)"

definition str_to_num :: "string \<Rightarrow> jsnum" where
  "str_to_num s =
     (let t = trim s
      in if t = [] then Fin 0
         else (case parse_radix_literal t of
                 Some n \<Rightarrow> to_double (of_nat n)
               | None \<Rightarrow> parse_decimal_literal t))"

subsection \<open>Cells of the decoded grid\<close>

text \<open>
  \<^verbatim>\<open>XLSX.utils.sheet_to_json(sheet, {header: 1, defval: ""})\<close> yields an array of rows,
  each an array of cell values: a string, a number or a boolean. Reading a row past its
  end gives \<^verbatim>\<open>undefined\<close>, here \<open>None\<close>.
\<close>

datatype cell = CStr string | CNum jsnum | CBool bool

fun truthy :: "cell \<Rightarrow> bool" where
  "truthy (CStr s) = (s \<noteq> [])"
| "truthy (CNum n) = (n \<noteq> NaN \<and> n \<noteq> Fin 0)"
| "truthy (CBool b) = b"

text \<open>\<^verbatim>\<open>x || d\<close> for a possibly undefined cell \<open>x\<close>.\<close>

fun or_else :: "cell option \<Rightarrow> cell \<Rightarrow> cell" where
  "or_else None d = d"
| "or_else (Some c) d = (if truthy c then c else d)"

text \<open>
  \<^verbatim>\<open>String(c)\<close>. The text of a number is the runtime's \<^verbatim>\<open>Number::toString\<close>, taken
  as the parameter \<open>nts\<close>.
\<close>

fun to_string :: "(jsnum \<Rightarrow> string) \<Rightarrow> cell \<Rightarrow> string" where
  "to_string nts (CStr s) = s"
| "to_string nts (CNum n) = nts n"
| "to_string nts (CBool b) = (if b then ''true'' else ''false'')"

text \<open>\<^verbatim>\<open>Number(c)\<close>.\<close>

fun to_number :: "cell \<Rightarrow> jsnum" where
  "to_number (CStr s) = str_to_num s"
| "to_number (CNum n) = n"
| "to_number (CBool b) = (if b then Fin 1 else Fin 0)"

text \<open>\<^verbatim>\<open>xs.findIndex(p)\<close>, with \<open>None\<close> for -1, and \<^verbatim>\<open>xs[i]\<close>.\<close>

fun findIndex :: "('a \<Rightarrow> bool) \<Rightarrow> 'a list \<Rightarrow> nat option" where
  "findIndex p [] = None"
| "findIndex p (x # xs) = (if p x then Some 0 else map_option Suc (findIndex p xs))"

definition at_index :: "'a list \<Rightarrow> nat \<Rightarrow> 'a option" where
  "at_index xs i = (if i < length xs then Some (xs ! i) else None)"

section \<open>Preview rows\<close>

text \<open>
  The object pushed onto \<^verbatim>\<open>parsedRows\<close> and \<^verbatim>\<open>enrichedRows\<close>. The numeric fields of a
  row are finite (the parser admits finite quantities only and the catalog reports
  integers), so they are rationals.
\<close>

record row =
  sku :: string
  productName :: string
  exist :: bool
  availableQuantity :: rat
  quantityRequested :: rat
  fulfilledQuantity :: rat
  status :: string
  variantId :: "string option"

section \<open>The row parser (lines 206 to 265, and 1503 to 1553)\<close>

text \<open>The normalised header row and the two column searches.\<close>

definition headerRow :: "(jsnum \<Rightarrow> string) \<Rightarrow> cell list \<Rightarrow> string list" where
  "headerRow nts hs = map (\<lambda>h. toLowerCase (trim (to_string nts h))) hs"

definition skuIndex :: "string list \<Rightarrow> nat option" where
  "skuIndex hr = findIndex (\<lambda>h. h = ''sku'') hr"

definition qtyIndex :: "string list \<Rightarrow> nat option" where
  "qtyIndex hr = findIndex (\<lambda>h. h = ''quantity'' \<or> h = ''qty'') hr"

text \<open>The object pushed onto \<^verbatim>\<open>parsedRows\<close> for a sku and a quantity (lines 244 to 253).\<close>

definition candidate :: "string \<Rightarrow> rat \<Rightarrow> row" where
  "candidate s q =
     \<lparr>sku = s, productName = [], exist = False, availableQuantity = 0,
       quantityRequested = q, fulfilledQuantity = 0, status = ''pending'',
       variantId = None\<rparr>"

text \<open>
  One pass of the loop over \<^verbatim>\<open>dataRows\<close>: \<open>None\<close> where the source says
  \<^verbatim>\<open>continue\<close>, otherwise the object it pushes. A quantity that passes the test is
  finite, so the last case has one live branch.
\<close>

definition parse_row :: "(jsnum \<Rightarrow> string) \<Rightarrow> nat \<Rightarrow> nat \<Rightarrow> cell list \<Rightarrow> row option" where
  "parse_row nts si qi r =
     (let rawSku = at_index r si;
          rawQty = at_index r qi;
          s = trim (to_string nts (or_else rawSku (CStr [])))
      in if s = [] then None
         else (let q = to_number (or_else rawQty (CNum (Fin 0)))
               in if \<not> isFinite q \<or> js_le q (Fin 0) then None
                  else (case q of
                          Fin v \<Rightarrow> Some (candidate s v)
                        | _ \<Rightarrow> None)))"

definition parsedRows :: "(jsnum \<Rightarrow> string) \<Rightarrow> nat \<Rightarrow> nat \<Rightarrow> cell list list \<Rightarrow> row list" where
  "parsedRows nts si qi dataRows =
     foldl (\<lambda>acc r. case parse_row nts si qi r of None \<Rightarrow> acc | Some x \<Rightarrow> acc @ [x])
       [] dataRows"

text \<open>
  The parser as a whole, from the decoded grid \<^verbatim>\<open>rows\<close>: the message of the error
  object it returns, or the parsed rows.
\<close>

definition parse_grid :: "(jsnum \<Rightarrow> string) \<Rightarrow> cell list list \<Rightarrow> string + row list" where
  "parse_grid nts rows =
     (case rows of
        [] \<Rightarrow> Inl ''The file is empty.''
      | h # dataRows \<Rightarrow>
          (case (skuIndex (headerRow nts h), qtyIndex (headerRow nts h)) of
             (Some si, Some qi) \<Rightarrow>
               (let ps = parsedRows nts si qi dataRows
                in if length ps = 0
                   then Inl ''No valid rows found. Please check that SKU and Quantity columns are filled.''
                   else Inr ps)
           | _ \<Rightarrow> Inl ''Header row must contain 'sku' and 'quantity' (or 'qty') columns.''))"

section \<open>The inventory reconciler (lines 267 to 410, and 1557 to 1672)\<close>

text \<open>
  The answer to the \<^verbatim>\<open>variantBySku\<close> query, shaped as the query asks for it. A field the
  code guards with \<^verbatim>\<open>?.\<close> or \<^verbatim>\<open>||\<close> is an option; \<open>quantity\<close> is the GraphQL integer,
  or \<open>None\<close> when it is not a number. \<open>level_edges\<close> stands for
  \<^verbatim>\<open>inventoryItem?.inventoryLevels?.edges || []\<close>, each element for \<^verbatim>\<open>edge?.node\<close>;
  \<open>errors\<close> is empty when the response has no \<^verbatim>\<open>errors\<close> key and \<open>edges\<close> is
  \<^verbatim>\<open>json?.data?.productVariants?.edges || []\<close>, each element the \<^verbatim>\<open>node\<close> of an edge.
\<close>

record quantity_entry =
  qname :: string
  quantity :: "int option"

record inventory_level =
  quantities :: "quantity_entry list"

record variant_node =
  variant_gid :: string
  displayName :: "string option"
  product_title :: "string option"
  level_edges :: "inventory_level option list"

record gql_body =
  errors :: "string list"
  edges :: "variant_node option list"

text \<open>
  What \<^verbatim>\<open>await admin.graphql(...)\<close> followed by \<^verbatim>\<open>await response.json()\<close> does: it
  throws, or it yields a body.
\<close>

datatype lookup_result = Threw | Body gql_body

text \<open>\<^verbatim>\<open>x || d\<close> for a string that may be null, undefined or empty.\<close>

definition str_or :: "string option \<Rightarrow> string \<Rightarrow> string" where
  "str_or x d = (case x of None \<Rightarrow> d | Some v \<Rightarrow> if v \<noteq> [] then v else d)"

text \<open>The loop over \<^verbatim>\<open>levelEdges\<close> that accumulates \<^verbatim>\<open>totalAvailable\<close>.\<close>

definition totalAvailable :: "inventory_level option list \<Rightarrow> int" where
  "totalAvailable levelEdges =
     foldl (\<lambda>total edge.
              case edge of
                None \<Rightarrow> total
              | Some level \<Rightarrow>
                  (case find (\<lambda>q. qname q = ''available'') (quantities level) of
                     None \<Rightarrow> total
                   | Some availableEntry \<Rightarrow>
                       (case quantity availableEntry of
                          None \<Rightarrow> total
                        | Some n \<Rightarrow> total + n)))
       0 levelEdges"

text \<open>The row pushed when the lookup fails (\<open>st\<close> is \<^verbatim>\<open>"error"\<close>) or finds no variant
  (\<open>st\<close> is \<^verbatim>\<open>"sku not found"\<close>).\<close>

definition unresolved_row :: "string \<Rightarrow> row \<Rightarrow> row" where
  "unresolved_row st r =
     r\<lparr>exist := False, productName := ''* * * * * * *'', availableQuantity := 0,
       fulfilledQuantity := 0, status := st, variantId := None\<rparr>"

text \<open>The row pushed for a variant node (lines 343 to 397, and 1618 to 1659).\<close>

definition matched_row :: "row \<Rightarrow> variant_node \<Rightarrow> row" where
  "matched_row r v =
     (let name0 = str_or (displayName v) (str_or (product_title v) (''SKU '' @ sku r));
          name1 = replace_first '' - Default Title'' [] name0;
          total = totalAvailable (level_edges v);
          fs = (if total \<le> 0 then (0, ''no stock'')
                else if quantityRequested r > of_int total then (of_int total, ''partial'')
                else (quantityRequested r, ''ok''))
      in r\<lparr>exist := True, productName := name1, availableQuantity := of_int total,
           fulfilledQuantity := fst fs, status := snd fs,
           variantId := Some (variant_gid v)\<rparr>)"

text \<open>\<^verbatim>\<open>edges.length > 0 ? edges[0].node : null\<close>, then the two branches on it.\<close>

definition row_of_edges :: "row \<Rightarrow> variant_node option list \<Rightarrow> row" where
  "row_of_edges r es =
     (case (case es of [] \<Rightarrow> None | e # _ \<Rightarrow> e) of
        None \<Rightarrow> unresolved_row ''sku not found'' r
      | Some variantNode \<Rightarrow> matched_row r variantNode)"

text \<open>
  The body of the loop over \<^verbatim>\<open>parsedRows\<close>, given what the lookup did. The first listing
  returns the error row for a response with GraphQL errors (lines 311 to 324); the
  second listing logs them and goes on (lines 1597 to 1600).
\<close>

definition enrich_row1 :: "row \<Rightarrow> lookup_result \<Rightarrow> row" where
  "enrich_row1 r res =
     (case res of
        Threw \<Rightarrow> unresolved_row ''error'' r
      | Body json \<Rightarrow>
          if length (errors json) > 0 then unresolved_row ''error'' r
          else row_of_edges r (edges json))"

definition enrich_row2 :: "row \<Rightarrow> lookup_result \<Rightarrow> row" where
  "enrich_row2 r res =
     (case res of
        Threw \<Rightarrow> unresolved_row ''error'' r
      | Body json \<Rightarrow> row_of_edges r (edges json))"

text \<open>
  The loop itself. The catalog is a service with a state of its own: \<open>lookup\<close> takes the
  query variable \<^verbatim>\<open>sku:"<sku>"\<close> and the state, and returns what the call did and the
  next state. One call is made per row, in order.
\<close>

definition sku_query :: "string \<Rightarrow> string" where
  "sku_query s = ''sku:'' @ [CHR 0x22] @ s @ [CHR 0x22]"

fun enrich_loop ::
  "(row \<Rightarrow> lookup_result \<Rightarrow> row) \<Rightarrow> (string \<Rightarrow> 's \<Rightarrow> lookup_result \<times> 's)
     \<Rightarrow> row list \<Rightarrow> 's \<Rightarrow> row list \<times> 's" where
  "enrich_loop body lookup [] st = ([], st)"
| "enrich_loop body lookup (r # rs) st =
     (case lookup (sku_query (sku r)) st of
        (res, st1) \<Rightarrow>
          (case enrich_loop body lookup rs st1 of
             (out, st2) \<Rightarrow> (body r res # out, st2)))"

definition enrichedRows1 ::
  "(string \<Rightarrow> 's \<Rightarrow> lookup_result \<times> 's) \<Rightarrow> row list \<Rightarrow> 's \<Rightarrow> row list \<times> 's" where
  "enrichedRows1 lookup rs st = enrich_loop enrich_row1 lookup rs st"

definition enrichedRows2 ::
  "(string \<Rightarrow> 's \<Rightarrow> lookup_result \<times> 's) \<Rightarrow> row list \<Rightarrow> 's \<Rightarrow> row list \<times> 's" where
  "enrichedRows2 lookup rs st = enrich_loop enrich_row2 lookup rs st"

section \<open>What the action returns\<close>

text \<open>
  The object with \<^verbatim>\<open>mode: "error"\<close> (its \<^verbatim>\<open>error\<close>, \<^verbatim>\<open>customerName\<close>, \<^verbatim>\<open>customerId\<close> and
  \<^verbatim>\<open>previewRows\<close>), the one with \<^verbatim>\<open>mode: "preview"\<close>, or the redirect.
\<close>

datatype outcome =
    ErrorResult string string string "row list"
  | PreviewResult string string "row list"
  | RedirectTo string

section \<open>The process intent (lines 144 to 418, and 1438 to 1682)\<close>

text \<open>
  The uploaded file: absent or a plain string, rejected by \<^verbatim>\<open>XLSX.read\<close>, or decoded to
  the grid \<^verbatim>\<open>rows\<close>.
\<close>

datatype upload = NoFile | Unreadable | Sheet "cell list list"

definition action_process ::
  "(row \<Rightarrow> lookup_result \<Rightarrow> row) \<Rightarrow> (jsnum \<Rightarrow> string)
     \<Rightarrow> (string \<Rightarrow> 's \<Rightarrow> lookup_result \<times> 's)
     \<Rightarrow> string option \<Rightarrow> string option \<Rightarrow> upload \<Rightarrow> 's \<Rightarrow> outcome \<times> 's" where
  "action_process body nts lookup customerNameRaw customerIdRaw file st =
     (let cn = trim (str_or customerNameRaw []);
          ci = trim (str_or customerIdRaw []);
          missingCustomer = (cn = [] \<or> ci = []);
          required =
            ErrorResult ''Customer selection and CSV/Excel file are required to import orders.''
              cn ci []
      in if missingCustomer then (required, st)
         else (case file of
                 NoFile \<Rightarrow> (required, st)
               | Unreadable \<Rightarrow>
                   (ErrorResult
                      ''Unable to read the file. Please check that it's a valid CSV or Excel file.''
                      cn ci [], st)
               | Sheet rows \<Rightarrow>
                   (case parse_grid nts rows of
                      Inl msg \<Rightarrow> (ErrorResult msg cn ci [], st)
                    | Inr ps \<Rightarrow>
                        (case enrich_loop body lookup ps st of
                           (out, st1) \<Rightarrow> (PreviewResult cn ci out, st1)))))"

definition action_process1 ::
  "(jsnum \<Rightarrow> string) \<Rightarrow> (string \<Rightarrow> 's \<Rightarrow> lookup_result \<times> 's)
     \<Rightarrow> string option \<Rightarrow> string option \<Rightarrow> upload \<Rightarrow> 's \<Rightarrow> outcome \<times> 's" where
  "action_process1 = action_process enrich_row1"

definition action_process2 ::
  "(jsnum \<Rightarrow> string) \<Rightarrow> (string \<Rightarrow> 's \<Rightarrow> lookup_result \<times> 's)
     \<Rightarrow> string option \<Rightarrow> string option \<Rightarrow> upload \<Rightarrow> 's \<Rightarrow> outcome \<times> 's" where
  "action_process2 = action_process enrich_row2"

section \<open>The create intent (lines 423 to 587, and 1684 to 1855)\<close>

subsection \<open>Text helpers\<close>

text \<open>The decimal text of the HTTP status in the error message.\<close>

fun show_nat :: "nat \<Rightarrow> string" where
  "show_nat n =
     (if n < 10 then [char_of (48 + n)]
      else show_nat (n div 10) @ [char_of (48 + n mod 10)])"

declare show_nat.simps [simp del]

text \<open>
  \<^verbatim>\<open>encodeURIComponent\<close> on 8-bit code units: letters, digits and \<^verbatim>\<open>-_.!~*'()\<close> stay,
  every other unit is percent-encoded through its UTF-8 bytes.
\<close>

definition hex_digit :: "nat \<Rightarrow> char" where
  "hex_digit d = (if d < 10 then char_of (48 + d) else char_of (55 + d))"

definition percent :: "nat \<Rightarrow> string" where
  "percent b = [CHR ''%'', hex_digit (b div 16), hex_digit (b mod 16)]"

definition is_unreserved :: "char \<Rightarrow> bool" where
  "is_unreserved c =
     (let n = (of_char c :: nat)
      in (48 \<le> n \<and> n \<le> 57) \<or> (65 \<le> n \<and> n \<le> 90) \<or> (97 \<le> n \<and> n \<le> 122)
         \<or> c \<in> set ''-_.!~*'()'')"

definition encode_unit :: "char \<Rightarrow> string" where
  "encode_unit c =
     (let n = (of_char c :: nat)
      in if is_unreserved c then [c]
         else if n < 128 then percent n
         else percent (192 + n div 64) @ percent (128 + n mod 64))"

definition encodeURIComponent :: "string \<Rightarrow> string" where
  "encodeURIComponent s = concat (map encode_unit s)"

subsection \<open>The services the create intent talks to\<close>

text \<open>
  The shop query of \<^verbatim>\<open>getShopNumericId\<close>: the call throws, or the body carries
  \<^verbatim>\<open>body?.data?.shop?.id\<close>.
\<close>

datatype shop_response = ShopThrew | ShopBody "string option"

definition getShopNumericId :: "shop_response \<Rightarrow> string option" where
  "getShopNumericId resp =
     (case resp of
        ShopThrew \<Rightarrow> None
      | ShopBody i \<Rightarrow>
          (let gid = str_or i [];
               numericId = (if startsWith gid ''gid://'' then split_pop gid else gid)
           in if numericId \<noteq> [] then Some numericId else None))"

text \<open>
  The customer query of \<^verbatim>\<open>getB2BContext\<close> (second listing, lines 1273 to 1332): the
  call throws, or the body carries \<^verbatim>\<open>companyContactProfiles\<close>. Of a profile the code
  reads its \<^verbatim>\<open>id\<close>, its company's \<^verbatim>\<open>id\<close> and the \<^verbatim>\<open>node?.id\<close> of the company's location
  edges.
\<close>

record company =
  company_gid :: "string option"
  location_edges :: "string option list"

record contact_profile =
  profile_gid :: "string option"
  profile_company :: "company option"

datatype b2b_response = B2BThrew | B2BBody "contact_profile list"

record b2b_context =
  companyId :: "string option"
  companyLocationId :: "string option"
  companyContactId :: "string option"

text \<open>\<^verbatim>\<open>x || null\<close> for a string that may be null, undefined or empty.\<close>

definition or_null :: "string option \<Rightarrow> string option" where
  "or_null x = (case x of None \<Rightarrow> None | Some v \<Rightarrow> if v \<noteq> [] then Some v else None)"

definition no_b2b :: b2b_context where
  "no_b2b = \<lparr>companyId = None, companyLocationId = None, companyContactId = None\<rparr>"

text \<open>The context from the response, once the query has been sent.\<close>

definition b2b_of_response :: "b2b_response \<Rightarrow> b2b_context" where
  "b2b_of_response resp =
     (case resp of
        B2BThrew \<Rightarrow> no_b2b
      | B2BBody profiles \<Rightarrow>
          (case profiles of
             [] \<Rightarrow> no_b2b
           | profile # _ \<Rightarrow>
               \<lparr>companyId =
                    or_null (case profile_company profile of
                               None \<Rightarrow> None | Some c \<Rightarrow> company_gid c),
                  companyLocationId =
                    or_null (case profile_company profile of
                               None \<Rightarrow> None
                             | Some c \<Rightarrow>
                                 (case location_edges c of [] \<Rightarrow> None | e # _ \<Rightarrow> e)),
                  companyContactId = or_null (profile_gid profile)\<rparr>))"

text \<open>
  The answer to the \<^verbatim>\<open>DraftOrderCreate\<close> request: \<^verbatim>\<open>fetch\<close> rejects (with a message),
  the response is not \<^verbatim>\<open>ok\<close> (status and status text), its body is not JSON (the
  message of the parse error), or it is the JSON value: \<^verbatim>\<open>null\<close>, or an object with
  \<^verbatim>\<open>success\<close>, \<^verbatim>\<open>draftOrder\<close> and \<^verbatim>\<open>error\<close>.
\<close>

record draft_order =
  order_gid :: "string option"
  legacyResourceId :: "string option"
  order_name :: "string option"

record oc_json =
  success :: bool
  draftOrder :: "draft_order option"
  oc_error :: "string option"

datatype oc_response =
    FetchThrew string
  | HttpError nat string
  | InvalidJson string
  | OcJson "oc_json option"

text \<open>Whether \<^verbatim>\<open>db.bulkOrderUpload.create\<close> will throw or save.\<close>

datatype db_result = DbThrew | DbSaved

record services =
  shop :: shop_response
  b2b :: b2b_response
  oc :: oc_response
  db :: db_result

subsection \<open>Requests, records and the trace of calls\<close>

record line_item =
  li_quantity :: rat
  li_variantId :: "string option"

text \<open>
  The JSON body of the request; \<open>req_b2b\<close> is \<open>None\<close> in the first listing, whose body
  has no company keys.
\<close>

record order_request =
  req_shop_id :: "string option"
  req_customerId :: string
  req_customerName :: string
  lineItems :: "line_item list"
  order_note :: string
  totalQuantity :: jsnum
  req_b2b :: "b2b_context option"

record history_record =
  h_shopId :: "string option"
  h_customerId :: string
  h_customerName :: string
  h_orderId :: "string option"
  h_orderLegacyId :: string
  h_orderName :: string
  h_totalQuantity :: jsnum

text \<open>The calls the action makes to services outside the process, in order.\<close>

datatype call =
    ShopIdQuery
  | B2BContextQuery string
  | DraftOrderCreate order_request
  | HistoryCreate history_record

text \<open>
  \<^verbatim>\<open>getB2BContext(admin, customerGid)\<close>: no query is sent for an empty customer id.
\<close>

definition getB2BContext :: "b2b_response \<Rightarrow> string \<Rightarrow> b2b_context \<times> call list" where
  "getB2BContext resp customerGid =
     (if customerGid = [] then (no_b2b, [])
      else (b2b_of_response resp, [B2BContextQuery customerGid]))"

subsection \<open>The form and the round-tripped rows\<close>

text \<open>
  What \<^verbatim>\<open>formData.get\<close> yields for a field: null, a file, or a string.
\<close>

datatype form_value = Absent | FileEntry | Text string

text \<open>
  The form of a confirm whose customer id is null or a string, as the preview form
  posts it. What the intent does when the customer id is a file is decided before
  anything else, in \<open>create_intent\<close> below.
\<close>

record create_form =
  f_customerName :: "string option"
  f_customerId :: "string option"
  f_previewJson :: form_value

text \<open>
  Lines 443 to 450 (and 1704 to 1713). \<^verbatim>\<open>JSON.parse\<close> is the runtime's: the parameter
  \<open>json_parse\<close> gives the row array a text denotes, \<open>None\<close> when the text is not valid
  JSON. The rows are those the preview form serialised with \<^verbatim>\<open>JSON.stringify\<close>, so they
  have the type of the rows the process intent returns.
\<close>

definition previewRows_of :: "(string \<Rightarrow> row list option) \<Rightarrow> form_value \<Rightarrow> row list" where
  "previewRows_of json_parse previewJson =
     (case previewJson of
        Text t \<Rightarrow>
          if length t > 0
          then (case json_parse t of None \<Rightarrow> [] | Some rs \<Rightarrow> rs)
          else []
      | _ \<Rightarrow> [])"

text \<open>\<^verbatim>\<open>Number(row.fulfilledQuantity || 0)\<close>.\<close>

definition fulfilled_or_0 :: "row \<Rightarrow> rat" where
  "fulfilled_or_0 r = (if fulfilledQuantity r \<noteq> 0 then fulfilledQuantity r else 0)"

text \<open>The callback of \<^verbatim>\<open>previewRows.filter\<close> (lines 453 to 458, and 1715 to 1717).\<close>

definition included :: "row \<Rightarrow> bool" where
  "included r =
     (exist r
      \<and> (case variantId r of None \<Rightarrow> False | Some v \<Rightarrow> v \<noteq> [])
      \<and> fulfilled_or_0 r > 0)"

definition includedRows :: "row list \<Rightarrow> row list" where
  "includedRows previewRows = filter included previewRows"

text \<open>
  The \<^verbatim>\<open>reduce\<close> and the \<^verbatim>\<open>map\<close> over the included rows. The \<^verbatim>\<open>reduce\<close> adds
  doubles from left to right, starting at 0.
\<close>

definition total_of :: "row list \<Rightarrow> jsnum" where
  "total_of rs = foldl (\<lambda>sum r. js_add sum (Fin (fulfilled_or_0 r))) (Fin 0) rs"

definition lineItems_of :: "row list \<Rightarrow> line_item list" where
  "lineItems_of rs =
     map (\<lambda>r. \<lparr>li_quantity = fulfilledQuantity r, li_variantId = variantId r\<rparr>) rs"

definition note_of :: "string \<Rightarrow> string \<Rightarrow> string" where
  "note_of customerName customerNumericId =
     ''Bulk upload for customer: '' @ customerName
       @ '' (Shopify customer ID: '' @ customerNumericId @ '')''"

subsection \<open>The order-creation call\<close>

text \<open>
  The \<^verbatim>\<open>try\<close> block around \<^verbatim>\<open>fetch\<close>: \<open>Inl\<close> carries the message of the error that
  reaches the \<^verbatim>\<open>catch\<close>, \<open>Inr\<close> the value assigned to \<^verbatim>\<open>draftOrder\<close>. The listings
  differ in the message for a body that is not JSON.
\<close>

definition oc_checked :: "oc_json option \<Rightarrow> string + draft_order option" where
  "oc_checked ocJson =
     (case ocJson of
        None \<Rightarrow> Inl ''Invalid response from Shopify GraphQL''
      | Some j \<Rightarrow>
          if \<not> success j \<or> draftOrder j = None
          then Inl (str_or (oc_error j) ''Invalid response from Shopify GraphQL'')
          else Inr (draftOrder j))"

definition oc_result1 :: "oc_response \<Rightarrow> string + draft_order option" where
  "oc_result1 resp =
     (case resp of
        FetchThrew m \<Rightarrow> Inl m
      | HttpError st txt \<Rightarrow> Inl (''OC HTTP error '' @ show_nat st @ '' '' @ txt)
      | InvalidJson m \<Rightarrow> Inl m
      | OcJson ocJson \<Rightarrow> oc_checked ocJson)"

definition oc_result2 :: "oc_response \<Rightarrow> string + draft_order option" where
  "oc_result2 resp =
     (case resp of
        FetchThrew m \<Rightarrow> Inl m
      | HttpError st txt \<Rightarrow> Inl (''OC HTTP error '' @ show_nat st @ '' '' @ txt)
      | InvalidJson m \<Rightarrow> Inl ''OC DraftOrderCreate: invalid JSON response''
      | OcJson ocJson \<Rightarrow> oc_checked ocJson)"

text \<open>
  The history store is a list of records. The \<^verbatim>\<open>try\<close> block around
  \<^verbatim>\<open>db.bulkOrderUpload.create\<close>: a write that saves appends the record, one that throws
  leaves the store as it was; the \<^verbatim>\<open>catch\<close> logs and does not rethrow.
\<close>

definition save_history :: "db_result \<Rightarrow> history_record \<Rightarrow> history_record list \<Rightarrow> history_record list" where
  "save_history r h store = (case r of DbThrew \<Rightarrow> store | DbSaved \<Rightarrow> store @ [h])"

text \<open>
  \<^verbatim>\<open>realOrderName || realOrderLegacyId || realOrderId\<close>, as \<^verbatim>\<open>encodeURIComponent\<close>
  reads it (an undefined id is the text \<^verbatim>\<open>undefined\<close>).
\<close>

definition order_label :: "draft_order \<Rightarrow> string" where
  "order_label d =
     (let realOrderLegacyId = str_or (legacyResourceId d) [];
          realOrderName = str_or (order_name d) []
      in if realOrderName \<noteq> [] then realOrderName
         else if realOrderLegacyId \<noteq> [] then realOrderLegacyId
         else (case order_gid d of None \<Rightarrow> ''undefined'' | Some i \<Rightarrow> i))"

subsection \<open>The action\<close>

text \<open>
  Everything after the context lookups, which differ between the listings: \<open>pre\<close> is
  the trace so far, \<open>ctx\<close> the company keys of the request body, \<open>oc_result\<close> the
  listing's reading of the order-creation response. The result is what the action
  returns, the calls it made and the history store afterwards.
\<close>

definition create_from ::
  "(oc_response \<Rightarrow> string + draft_order option) \<Rightarrow> b2b_context option \<Rightarrow> call list
     \<Rightarrow> (string \<Rightarrow> row list option) \<Rightarrow> services \<Rightarrow> history_record list \<Rightarrow> create_form
     \<Rightarrow> outcome \<times> call list \<times> history_record list" where
  "create_from oc_result ctx pre json_parse sv store f =
     (let customerName = str_or (f_customerName f) ''Unknown Customer'';
          customerIdRaw = str_or (f_customerId f) [];
          customerGid = customerIdRaw;
          customerNumericId =
            (if startsWith customerGid ''gid://'' then split_pop customerGid else customerGid);
          shopNumericId = getShopNumericId (shop sv);
          previewRows = previewRows_of json_parse (f_previewJson f);
          inc = includedRows previewRows
      in if length inc = 0
         then (ErrorResult
                 ''No rows with available inventory to create a draft order. Please check the preview.''
                 customerName customerIdRaw previewRows,
               pre @ [ShopIdQuery], store)
         else
           (let req = \<lparr>req_shop_id = shopNumericId, req_customerId = customerGid,
                       req_customerName = customerName, lineItems = lineItems_of inc,
                       order_note = note_of customerName customerNumericId,
                       totalQuantity = total_of inc, req_b2b = ctx\<rparr>;
                trace = pre @ [ShopIdQuery, DraftOrderCreate req]
            in case oc_result (oc sv) of
                 Inl message \<Rightarrow>
                   (ErrorResult
                      (''Failed to create draft order via external service. ''
                         @ (if message \<noteq> [] then message
                            else ''Please check the uploaded data.''))
                      customerName customerIdRaw previewRows,
                    trace, store)
               | Inr None \<Rightarrow>
                   (ErrorResult
                      ''Failed to create draft order via external service. Please check the uploaded data.''
                      customerName customerIdRaw previewRows,
                    trace, store)
               | Inr (Some d) \<Rightarrow>
                   (let h = \<lparr>h_shopId = shopNumericId, h_customerId = customerNumericId,
                             h_customerName = customerName, h_orderId = order_gid d,
                             h_orderLegacyId = str_or (legacyResourceId d) [],
                             h_orderName = str_or (order_name d) [],
                             h_totalQuantity = total_of inc\<rparr>
                    in (RedirectTo (''/app?createdOrderName=''
                                      @ encodeURIComponent (order_label d)),
                        trace @ [HistoryCreate h],
                        save_history (db sv) h store))))"

text \<open>The first listing: the shop query is the only call before the rows are read.\<close>

definition action_create1 ::
  "(string \<Rightarrow> row list option) \<Rightarrow> services \<Rightarrow> history_record list \<Rightarrow> create_form
     \<Rightarrow> outcome \<times> call list \<times> history_record list" where
  "action_create1 json_parse sv store f =
     create_from oc_result1 None [] json_parse sv store f"

text \<open>
  The second listing: \<^verbatim>\<open>getB2BContext\<close> runs first (line 1696), then the shop query.
\<close>

definition action_create2 ::
  "(string \<Rightarrow> row list option) \<Rightarrow> services \<Rightarrow> history_record list \<Rightarrow> create_form
     \<Rightarrow> outcome \<times> call list \<times> history_record list" where
  "action_create2 json_parse sv store f =
     (case getB2BContext (b2b sv) (str_or (f_customerId f) []) of
        (ctx, pre) \<Rightarrow> create_from oc_result2 (Some ctx) pre json_parse sv store f)"

subsection \<open>The form as posted\<close>

text \<open>
  \<^verbatim>\<open>formData.get("customerId")\<close> yields null, a file or a string, like the other
  fields. \<^verbatim>\<open>customerGid.startsWith\<close> (lines 432 and 1692) is the first use the intent
  makes of it: for a file it throws a \<^verbatim>\<open>TypeError\<close>, outside any \<^verbatim>\<open>try\<close> and before any
  call or any look at \<^verbatim>\<open>previewJson\<close>, and the action rejects. For null or a string the
  intent goes on as \<open>action_create1\<close> and \<open>action_create2\<close> describe it. The customer
  name is only carried along and converted to text, which does not throw; it is taken
  as a string or null.
\<close>

datatype js_error = TypeError

record form_data =
  fd_customerName :: "string option"
  fd_customerId :: form_value
  fd_previewJson :: form_value

definition create_intent ::
  "(create_form \<Rightarrow> outcome \<times> call list \<times> history_record list) \<Rightarrow> form_data
     \<Rightarrow> js_error + outcome \<times> call list \<times> history_record list" where
  "create_intent act fd =
     (case fd_customerId fd of
        FileEntry \<Rightarrow> Inl TypeError
      | Absent \<Rightarrow>
          Inr (act \<lparr>f_customerName = fd_customerName fd, f_customerId = None,
                    f_previewJson = fd_previewJson fd\<rparr>)
      | Text t \<Rightarrow>
          Inr (act \<lparr>f_customerName = fd_customerName fd, f_customerId = Some t,
                    f_previewJson = fd_previewJson fd\<rparr>))"

definition create_intent1 ::
  "(string \<Rightarrow> row list option) \<Rightarrow> services \<Rightarrow> history_record list \<Rightarrow> form_data
     \<Rightarrow> js_error + outcome \<times> call list \<times> history_record list" where
  "create_intent1 json_parse sv store fd = create_intent (action_create1 json_parse sv store) fd"

definition create_intent2 ::
  "(string \<Rightarrow> row list option) \<Rightarrow> services \<Rightarrow> history_record list \<Rightarrow> form_data
     \<Rightarrow> js_error + outcome \<times> call list \<times> history_record list" where
  "create_intent2 json_parse sv store fd = create_intent (action_create2 json_parse sv store) fd"

section \<open>Observations on a run\<close>

text \<open>The order-creation requests and the history writes among the calls of a trace.\<close>

fun order_requests :: "call list \<Rightarrow> order_request list" where
  "order_requests [] = []"
| "order_requests (DraftOrderCreate q # cs) = q # order_requests cs"
| "order_requests (c # cs) = order_requests cs"

fun history_writes :: "call list \<Rightarrow> history_record list" where
  "history_writes [] = []"
| "history_writes (HistoryCreate h # cs) = h # history_writes cs"
| "history_writes (c # cs) = history_writes cs"

text \<open>
  The available quantity of one inventory location as the specification words it: the
  quantity of its \<^verbatim>\<open>available\<close> entry, and 0 for a location without one.
\<close>

definition location_available :: "inventory_level option \<Rightarrow> int" where
  "location_available edge =
     (case edge of
        None \<Rightarrow> 0
      | Some level \<Rightarrow>
          (case find (\<lambda>q. qname q = ''available'') (quantities level) of
             None \<Rightarrow> 0
           | Some e \<Rightarrow> (case quantity e of None \<Rightarrow> 0 | Some n \<Rightarrow> n)))"

section \<open>Example data\<close>

text \<open>A parsed row, a variant stocked at two of three locations, and catalog answers.\<close>

definition ex_row :: row where
  "ex_row = \<lparr>sku = ''ABC123'', productName = [], exist = False, availableQuantity = 0,
             quantityRequested = 5, fulfilledQuantity = 0, status = ''pending'',
             variantId = None\<rparr>"

definition ex_variant :: variant_node where
  "ex_variant =
     \<lparr>variant_gid = ''gid://shopify/ProductVariant/1'',
       displayName = Some ''Shirt - Default Title'', product_title = None,
       level_edges =
         [Some \<lparr>quantities = [\<lparr>qname = ''available'', quantity = Some 3\<rparr>]\<rparr>,
          None,
          Some \<lparr>quantities = [\<lparr>qname = ''available'', quantity = Some (- 1)\<rparr>]\<rparr>]\<rparr>"

definition ex_body :: gql_body where
  "ex_body = \<lparr>errors = [], edges = [Some ex_variant]\<rparr>"

text \<open>
  Two more parsed rows; a catalog that answers the first call with the stocked variant,
  throws on the second and answers every later one with GraphQL errors and no data; and
  an answer for a variant oversold by three at its only location.
\<close>

definition ex_errors_body :: gql_body where
  "ex_errors_body = \<lparr>errors = [''Throttled''], edges = []\<rparr>"

definition ex_row2 :: row where
  "ex_row2 = ex_row\<lparr>sku := ''XYZ999'', quantityRequested := 3\<rparr>"

definition ex_row3 :: row where
  "ex_row3 = ex_row\<lparr>sku := ''GHI111'', quantityRequested := 2\<rparr>"

definition ex_lookup :: "string \<Rightarrow> nat \<Rightarrow> lookup_result \<times> nat" where
  "ex_lookup q n = (if n = 0 then Body ex_body else if n = 1 then Threw else Body ex_errors_body, Suc n)"

definition ex_oversold_body :: gql_body where
  "ex_oversold_body =
     \<lparr>errors = [],
       edges = [Some (ex_variant\<lparr>level_edges :=
                  [Some \<lparr>quantities = [\<lparr>qname = ''available'', quantity = Some (- 3)\<rparr>]\<rparr>]\<rparr>)]\<rparr>"

text \<open>
  Two round-tripped rows, one that goes on the order and one that does not; a
  \<^verbatim>\<open>JSON.parse\<close> that knows two texts and rejects every other; the services of a
  confirm whose order is created and whose history write throws; and the form.
\<close>

definition ex_included_row :: row where
  "ex_included_row =
     \<lparr>sku = ''ABC123'', productName = ''Shirt'', exist = True, availableQuantity = 2,
       quantityRequested = 5, fulfilledQuantity = 2, status = ''partial'',
       variantId = Some ''gid://shopify/ProductVariant/1''\<rparr>"

definition ex_missing_row :: row where
  "ex_missing_row =
     \<lparr>sku = ''XYZ999'', productName = ''* * * * * * *'', exist = False,
       availableQuantity = 0, quantityRequested = 3, fulfilledQuantity = 0,
       status = ''sku not found'', variantId = None\<rparr>"

definition ex_parse :: "string \<Rightarrow> row list option" where
  "ex_parse t =
     (if t = ''both'' then Some [ex_included_row, ex_missing_row]
      else if t = ''missing'' then Some [ex_missing_row]
      else None)"

definition ex_draft :: draft_order where
  "ex_draft = \<lparr>order_gid = Some ''gid://shopify/DraftOrder/9'',
                legacyResourceId = Some ''9'', order_name = Some ''D24''\<rparr>"

definition ex_services :: services where
  "ex_services =
     \<lparr>shop = ShopBody (Some ''gid://shopify/Shop/55''), b2b = B2BBody [],
       oc = OcJson (Some \<lparr>success = True, draftOrder = Some ex_draft, oc_error = None\<rparr>),
       db = DbThrew\<rparr>"

definition ex_form :: "string \<Rightarrow> create_form" where
  "ex_form t = \<lparr>f_customerName = Some ''Ann'',
                 f_customerId = Some ''gid://shopify/Customer/7'',
                 f_previewJson = Text t\<rparr>"

text \<open>
  The grid of the specification's parsing example, and a grid whose only data row has
  the number 0 in its sku cell.
\<close>

definition ex_grid_spec :: "cell list list" where
  "ex_grid_spec =
     [[CStr ''SKU'', CStr ''Quantity''],
      [CStr ''ABC123'', CStr ''5''],
      [CStr [], CStr ''3''],
      [CStr ''XYZ999'', CStr ''-1''],
      [CStr ''DEF000'', CStr ''0''],
      [CStr ''GHI111'', CStr ''2'']]"

definition ex_grid_zero_sku :: "cell list list" where
  "ex_grid_zero_sku = [[CStr ''sku'', CStr ''qty''], [CNum (Fin 0), CNum (Fin 5)]]"

text \<open>
  A stand-in for the runtime's number-to-text conversion in examples: the integer part
  in decimal.
\<close>

definition ex_number_text :: "jsnum \<Rightarrow> string" where
  "ex_number_text n =
     (case n of
        NaN \<Rightarrow> ''NaN''
      | PInf \<Rightarrow> ''Infinity''
      | NInf \<Rightarrow> ''-Infinity''
      | Fin q \<Rightarrow> (if q < 0 then ''-'' else []) @ show_nat (nat \<lfloor>\<bar>q\<bar>\<rfloor>))"

text \<open>
  Two rows whose fulfilled quantities are the doubles that the texts \<^verbatim>\<open>0.1\<close> and
  \<^verbatim>\<open>0.2\<close> denote, and a \<^verbatim>\<open>JSON.parse\<close> that yields them.
\<close>

definition ex_tenth_row :: row where
  "ex_tenth_row =
     \<lparr>sku = ''ABC123'', productName = ''Shirt'', exist = True, availableQuantity = 2,
       quantityRequested = 3602879701896397 / 2 ^ 55,
       fulfilledQuantity = 3602879701896397 / 2 ^ 55, status = ''ok'',
       variantId = Some ''gid://shopify/ProductVariant/1''\<rparr>"

definition ex_fifth_row :: row where
  "ex_fifth_row =
     \<lparr>sku = ''GHI111'', productName = ''Cap'', exist = True, availableQuantity = 7,
       quantityRequested = 3602879701896397 / 2 ^ 54,
       fulfilledQuantity = 3602879701896397 / 2 ^ 54, status = ''ok'',
       variantId = Some ''gid://shopify/ProductVariant/2''\<rparr>"

definition ex_parse_fractions :: "string \<Rightarrow> row list option" where
  "ex_parse_fractions t = Some [ex_tenth_row, ex_fifth_row]"

text \<open>
  Two posted forms without \<^verbatim>\<open>previewJson\<close>: one whose customer id is a file, one whose
  customer id is a string.
\<close>

definition ex_file_id_form :: form_data where
  "ex_file_id_form =
     \<lparr>fd_customerName = Some ''Ann'', fd_customerId = FileEntry, fd_previewJson = Absent\<rparr>"

definition ex_posted_form :: form_data where
  "ex_posted_form =
     \<lparr>fd_customerName = Some ''Ann'', fd_customerId = Text ''gid://shopify/Customer/7'',
       fd_previewJson = Absent\<rparr>"

section \<open>Properties\<close>

subsection \<open>Rounding to a double\<close>

text \<open>Integers up to \<open>2^53\<close> are doubles: rounding leaves them as they are.\<close>

lemma round_even_of_int: "round_even (of_int m) = m"
  by (simp add: round_even_def)

lemma quotient_of_of_int: "quotient_of (of_int k) = (k, 1)"
  by (simp add: of_int_rat quotient_of_Fract)

lemma bitlen_pos: "0 < k \<Longrightarrow> 1 \<le> bitlen k"
  using bitlen_eq_zero_iff [of k] bitlen_nonneg [of k] by linarith

lemma exponent_of_int:
  assumes "0 < k"
  shows "exponent_of (of_int k) = bitlen k - 1"
proof -
  from bitlen_bounds [OF assms] have "2 ^ nat (bitlen k - 1) \<le> k"
    by simp
  then have "(of_int (2 ^ nat (bitlen k - 1)) :: rat) \<le> of_int k"
    by (simp only: of_int_le_iff)
  moreover have "0 \<le> bitlen k - 1"
    using bitlen_pos [OF assms] by simp
  ultimately have "pow2 (bitlen k - 1) \<le> of_int k"
    by (simp add: pow2_def)
  moreover have "bitlen 1 = 1"
    by (simp add: bitlen_alt_def)
  ultimately show ?thesis
    by (simp add: exponent_of_def quotient_of_of_int Let_def)
qed

lemma to_double_int:
  assumes "0 \<le> k" and "k \<le> 2 ^ 53"
  shows "to_double (of_int k) = Fin (of_int k)"
proof (cases "k = 0")
  case True
  then show ?thesis
    by (simp add: to_double_def)
next
  case False
  with assms have pos: "0 < k"
    by simp
  define e where "e = bitlen k - 1"
  have e: "exponent_of (of_int k) = e"
    by (simp add: e_def exponent_of_int pos)
  have e0: "0 \<le> e"
    using bitlen_pos [OF pos] by (simp add: e_def)
  from bitlen_bounds [OF pos] have lo: "(2::int) ^ nat e \<le> k"
    by (simp add: e_def)
  with assms(2) have le: "(2::int) ^ nat e \<le> 2 ^ 53"
    by linarith
  have "nat e \<le> 53"
  proof (rule power_le_imp_le_exp)
    show "(1::int) < 2"
      by simp
    show "(2::int) ^ nat e \<le> 2 ^ 53"
      by (fact le)
  qed
  with e0 have e53: "e \<le> 53"
    by linarith
  show ?thesis
  proof (cases "e = 53")
    case True
    with lo have "2 ^ 53 \<le> k"
      by simp
    with assms(2) have k: "k = 2 ^ 53"
      by linarith
    have "to_double (2 ^ 53) = Fin (2 ^ 53)"
      by code_simp
    then show ?thesis
      by (simp add: k)
  next
    case False
    with e53 have e52: "e \<le> 52"
      by linarith
    define s where "s = nat (52 - e)"
    have p: "max (e - 52) (- 1074) = e - 52"
      using e0 by simp
    have pw: "pow2 (e - 52) = 1 / 2 ^ s"
    proof (cases "e = 52")
      case True
      then show ?thesis
        by (simp add: pow2_def s_def)
    next
      case False
      with e52 have "e - 52 < 0"
        by linarith
      then show ?thesis
        by (simp add: pow2_def s_def)
    qed
    have m: "(of_int k :: rat) / pow2 (e - 52) = of_int (k * 2 ^ s)"
      by (simp add: pw)
    have r: "round_even (of_int k / pow2 (e - 52)) = k * 2 ^ s"
      unfolding m by (rule round_even_of_int)
    have rt: "(of_int (k * 2 ^ s) :: rat) * pow2 (e - 52) = of_int k"
      by (simp add: pw)
    have ne: "(of_int k :: rat) \<noteq> 0" and ab: "\<bar>of_int k :: rat\<bar> = of_int k"
      and gt: "(0::rat) < of_int k"
      using pos by simp_all
    have no: "\<not> (1024 \<le> e \<or> (e = 1023 \<and> k * 2 ^ s = 2 ^ 53))"
      using e52 by simp
    show ?thesis
      unfolding to_double_def Let_def ab e p r rt
      using ne gt no by simp
  qed
qed

subsection \<open>Rows built by the reconciler\<close>

lemma totalAvailable_foldl:
  "foldl (\<lambda>total edge.
              case edge of
                None \<Rightarrow> total
              | Some level \<Rightarrow>
                  (case find (\<lambda>q. qname q = ''available'') (quantities level) of
                     None \<Rightarrow> total
                   | Some availableEntry \<Rightarrow>
                       (case quantity availableEntry of
                          None \<Rightarrow> total
                        | Some n \<Rightarrow> total + n)))
       a es = a + sum_list (map location_available es)"
  by (induction es arbitrary: a)
     (auto simp: location_available_def split: option.splits)

lemma totalAvailable_sum: "totalAvailable es = sum_list (map location_available es)"
  unfolding totalAvailable_def by (simp add: totalAvailable_foldl)

lemma matched_row_fields:
  "exist (matched_row r v) = True"
  "variantId (matched_row r v) = Some (variant_gid v)"
  "sku (matched_row r v) = sku r"
  "quantityRequested (matched_row r v) = quantityRequested r"
  "availableQuantity (matched_row r v) = of_int (totalAvailable (level_edges v))"
  by (simp_all add: matched_row_def Let_def)

lemma matched_row_fulfilled:
  "fulfilledQuantity (matched_row r v) =
     (if totalAvailable (level_edges v) \<le> 0 then 0
      else if quantityRequested r > of_int (totalAvailable (level_edges v))
           then of_int (totalAvailable (level_edges v))
      else quantityRequested r)"
  by (simp add: matched_row_def Let_def)

lemma matched_row_status:
  "status (matched_row r v) =
     (if totalAvailable (level_edges v) \<le> 0 then ''no stock''
      else if quantityRequested r > of_int (totalAvailable (level_edges v))
           then ''partial''
      else ''ok'')"
  by (simp add: matched_row_def Let_def)

lemma unresolved_row_fields:
  "exist (unresolved_row s r) = False"
  "variantId (unresolved_row s r) = None"
  "sku (unresolved_row s r) = sku r"
  "quantityRequested (unresolved_row s r) = quantityRequested r"
  "availableQuantity (unresolved_row s r) = 0"
  "fulfilledQuantity (unresolved_row s r) = 0"
  "status (unresolved_row s r) = s"
  by (simp_all add: unresolved_row_def)

lemma ex_variant_total: "totalAvailable (level_edges ex_variant) = 2"
  by (simp add: ex_variant_def totalAvailable_def)

subsection \<open>Fulfilment classification\<close>

text \<open>
  Claim C1. When the catalog answers with a variant node (in the first listing: and
  without GraphQL errors), the row pushed has its \<open>fulfilledQuantity\<close> and \<open>status\<close>
  decided by the requested quantity and the summed availability \<open>t\<close> alone, in this
  order: \<open>t \<le> 0\<close> gives 0 and \<^verbatim>\<open>no stock\<close>; otherwise a request above \<open>t\<close> gives
  \<open>t\<close> and \<^verbatim>\<open>partial\<close>; otherwise the requested quantity and \<^verbatim>\<open>ok\<close>. Both listings
  agree.
\<close>

theorem fulfilment_precedence:
  assumes "edges json = Some v # es"
    and "t = totalAvailable (level_edges v)"
  shows "(errors json = [] \<longrightarrow>
           (fulfilledQuantity (enrich_row1 r (Body json)), status (enrich_row1 r (Body json)))
             = (if t \<le> 0 then (0, ''no stock'')
                else if quantityRequested r > of_int t then (of_int t, ''partial'')
                else (quantityRequested r, ''ok'')))
       \<and> (fulfilledQuantity (enrich_row2 r (Body json)), status (enrich_row2 r (Body json)))
             = (if t \<le> 0 then (0, ''no stock'')
                else if quantityRequested r > of_int t then (of_int t, ''partial'')
                else (quantityRequested r, ''ok''))"
  using assms
  by (simp add: enrich_row1_def enrich_row2_def row_of_edges_def
        matched_row_fulfilled matched_row_status)

theorem fulfilment_precedence_witness:
  "edges ex_body = Some ex_variant # []
   \<and> (2::int) = totalAvailable (level_edges ex_variant)
   \<and> errors ex_body = []
   \<and> (fulfilledQuantity (enrich_row1 ex_row (Body ex_body)),
       status (enrich_row1 ex_row (Body ex_body))) = (2, ''partial'')
   \<and> (fulfilledQuantity (enrich_row2 ex_row (Body ex_body)),
       status (enrich_row2 ex_row (Body ex_body))) = (2, ''partial'')"
proof -
  have e: "edges ex_body = Some ex_variant # []"
    by (simp add: ex_body_def)
  have t: "(2::int) = totalAvailable (level_edges ex_variant)"
    by (simp add: ex_variant_total)
  have n: "errors ex_body = []"
    by (simp add: ex_body_def)
  have q: "quantityRequested ex_row = 5"
    by (simp add: ex_row_def)
  from fulfilment_precedence [OF e t, of ex_row] n q e t show ?thesis
    by simp
qed


subsection \<open>The reconciliation loop\<close>

lemma enrich_loop_Cons:
  "fst (enrich_loop body lookup (r # rs) st) =
     body r (fst (lookup (sku_query (sku r)) st))
     # fst (enrich_loop body lookup rs (snd (lookup (sku_query (sku r)) st)))"
  "snd (enrich_loop body lookup (r # rs) st) =
     snd (enrich_loop body lookup rs (snd (lookup (sku_query (sku r)) st)))"
  by (simp_all split: prod.splits)

lemma enrich_loop_length: "length (fst (enrich_loop body lookup rs st)) = length rs"
  by (induction rs arbitrary: st) (simp_all add: enrich_loop_Cons del: enrich_loop.simps(2))

lemma enrich_loop_map:
  assumes "\<And>r res. f (body r res) = f r"
  shows "map f (fst (enrich_loop body lookup rs st)) = map f rs"
  by (induction rs arbitrary: st) (simp_all add: enrich_loop_Cons assms del: enrich_loop.simps(2))

lemma enrich_loop_append:
  "fst (enrich_loop body lookup (xs @ ys) st) =
     fst (enrich_loop body lookup xs st)
     @ fst (enrich_loop body lookup ys (snd (enrich_loop body lookup xs st)))"
  "snd (enrich_loop body lookup (xs @ ys) st) =
     snd (enrich_loop body lookup ys (snd (enrich_loop body lookup xs st)))"
  by (induction xs arbitrary: st) (simp_all add: enrich_loop_Cons del: enrich_loop.simps(2))

lemma enrich_loop_middle:
  "fst (enrich_loop body lookup (xs @ r # ys) st) =
     fst (enrich_loop body lookup xs st)
     @ body r (fst (lookup (sku_query (sku r)) (snd (enrich_loop body lookup xs st))))
     # fst (enrich_loop body lookup ys
              (snd (lookup (sku_query (sku r)) (snd (enrich_loop body lookup xs st)))))"
  by (simp add: enrich_loop_append enrich_loop_Cons del: enrich_loop.simps(2))

lemma row_of_edges_keeps:
  "sku (row_of_edges r es) = sku r"
  "quantityRequested (row_of_edges r es) = quantityRequested r"
  by (simp_all add: row_of_edges_def matched_row_fields unresolved_row_fields
        split: option.splits list.splits)

lemma enrich_row_keeps:
  "sku (enrich_row1 r res) = sku r"
  "quantityRequested (enrich_row1 r res) = quantityRequested r"
  "sku (enrich_row2 r res) = sku r"
  "quantityRequested (enrich_row2 r res) = quantityRequested r"
  by (simp_all add: enrich_row1_def enrich_row2_def row_of_edges_keeps unresolved_row_fields
        split: lookup_result.splits)

lemma enrich_row_failed:
  "enrich_row1 r Threw = unresolved_row ''error'' r"
  "errors j \<noteq> [] \<Longrightarrow> enrich_row1 r (Body j) = unresolved_row ''error'' r"
  "enrich_row2 r Threw = unresolved_row ''error'' r"
  by (simp_all add: enrich_row1_def enrich_row2_def)

text \<open>
  Claim C4. The reconciler returns one row per parsed row, in the same order (the same
  \<open>sku\<close> and \<open>quantityRequested\<close> at every position), whatever the lookups do. When
  the lookup for a row \<open>r\<close> in the middle of the sequence throws (or, in the first
  listing, answers with GraphQL errors), the output is the rows of the part before,
  then \<open>r\<close> marked as failed (\<open>exist\<close> false, the placeholder name, quantities 0,
  status \<^verbatim>\<open>error\<close>, no variant), then the rows of the part after, reconciled from the
  state the failed call left.
\<close>

theorem reconcile_isolates_failures:
  assumes "s1 = snd (enrichedRows1 lookup xs st)"
    and "t1 = snd (enrichedRows2 lookup xs st)"
    and "res1 = lookup (sku_query (sku r)) s1"
    and "res2 = lookup (sku_query (sku r)) t1"
    and "failed = r\<lparr>exist := False, productName := ''* * * * * * *'',
                     availableQuantity := 0, fulfilledQuantity := 0, status := ''error'',
                     variantId := None\<rparr>"
  shows "length (fst (enrichedRows1 lookup rs st)) = length rs
       \<and> length (fst (enrichedRows2 lookup rs st)) = length rs
       \<and> map sku (fst (enrichedRows1 lookup rs st)) = map sku rs
       \<and> map sku (fst (enrichedRows2 lookup rs st)) = map sku rs
       \<and> map quantityRequested (fst (enrichedRows1 lookup rs st)) = map quantityRequested rs
       \<and> map quantityRequested (fst (enrichedRows2 lookup rs st)) = map quantityRequested rs
       \<and> (fst res1 = Threw \<or> (\<exists>j. fst res1 = Body j \<and> errors j \<noteq> []) \<longrightarrow>
            fst (enrichedRows1 lookup (xs @ r # ys) st) =
              fst (enrichedRows1 lookup xs st) @ failed
                # fst (enrichedRows1 lookup ys (snd res1))
            \<and> fst (enrichedRows1 lookup (xs @ r # ys) st) ! length xs = failed)
       \<and> (fst res2 = Threw \<longrightarrow>
            fst (enrichedRows2 lookup (xs @ r # ys) st) =
              fst (enrichedRows2 lookup xs st) @ failed
                # fst (enrichedRows2 lookup ys (snd res2))
            \<and> fst (enrichedRows2 lookup (xs @ r # ys) st) ! length xs = failed)
       \<and> status failed = ''error'' \<and> \<not> exist failed \<and> variantId failed = None
       \<and> fulfilledQuantity failed = 0 \<and> sku failed = sku r
       \<and> quantityRequested failed = quantityRequested r"
proof -
  have u: "unresolved_row ''error'' r = failed"
    by (simp add: unresolved_row_def assms(5))
  have len: "length (fst (enrichedRows1 lookup rs st)) = length rs"
    "length (fst (enrichedRows2 lookup rs st)) = length rs"
    by (simp_all add: enrichedRows1_def enrichedRows2_def enrich_loop_length)
  have lx: "length (fst (enrichedRows1 lookup xs st)) = length xs"
    "length (fst (enrichedRows2 lookup xs st)) = length xs"
    by (simp_all add: enrichedRows1_def enrichedRows2_def enrich_loop_length)
  have skus: "map sku (fst (enrichedRows1 lookup rs st)) = map sku rs"
    "map sku (fst (enrichedRows2 lookup rs st)) = map sku rs"
    by (simp_all add: enrichedRows1_def enrichedRows2_def enrich_loop_map enrich_row_keeps)
  have qtys: "map quantityRequested (fst (enrichedRows1 lookup rs st)) = map quantityRequested rs"
    "map quantityRequested (fst (enrichedRows2 lookup rs st)) = map quantityRequested rs"
    by (simp_all add: enrichedRows1_def enrichedRows2_def enrich_loop_map enrich_row_keeps)
  have iso1: "fst (enrichedRows1 lookup (xs @ r # ys) st) =
              fst (enrichedRows1 lookup xs st) @ failed
                # fst (enrichedRows1 lookup ys (snd res1))"
    if "fst res1 = Threw \<or> (\<exists>j. fst res1 = Body j \<and> errors j \<noteq> [])"
  proof -
    from that have "enrich_row1 r (fst res1) = failed"
      by (auto simp: enrich_row_failed u)
    then show ?thesis
      using assms(1,3) by (simp add: enrichedRows1_def enrich_loop_middle)
  qed
  have iso2: "fst (enrichedRows2 lookup (xs @ r # ys) st) =
              fst (enrichedRows2 lookup xs st) @ failed
                # fst (enrichedRows2 lookup ys (snd res2))"
    if "fst res2 = Threw"
  proof -
    from that have "enrich_row2 r (fst res2) = failed"
      by (simp add: enrich_row_failed u)
    then show ?thesis
      using assms(2,4) by (simp add: enrichedRows2_def enrich_loop_middle)
  qed
  have at1: "fst (enrichedRows1 lookup (xs @ r # ys) st) ! length xs = failed"
    if "fst res1 = Threw \<or> (\<exists>j. fst res1 = Body j \<and> errors j \<noteq> [])"
    unfolding iso1 [OF that] using lx(1) by (simp add: nth_append)
  have at2: "fst (enrichedRows2 lookup (xs @ r # ys) st) ! length xs = failed"
    if "fst res2 = Threw"
    unfolding iso2 [OF that] using lx(2) by (simp add: nth_append)
  have f: "status failed = ''error''" "\<not> exist failed" "variantId failed = None"
    "fulfilledQuantity failed = 0" "sku failed = sku r"
    "quantityRequested failed = quantityRequested r"
    by (simp_all add: assms(5))
  from len skus qtys iso1 iso2 at1 at2 f show ?thesis
    by blast
qed

theorem reconcile_isolates_failures_witness:
  "(1::nat) = snd (enrichedRows1 ex_lookup [ex_row] 0)
   \<and> (1::nat) = snd (enrichedRows2 ex_lookup [ex_row] 0)
   \<and> (Threw, 2) = ex_lookup (sku_query (sku ex_row2)) 1
   \<and> length (fst (enrichedRows1 ex_lookup [ex_row, ex_row2, ex_row3] 0)) = 3
   \<and> fst (enrichedRows1 ex_lookup ([ex_row] @ ex_row2 # [ex_row3]) 0) ! 1 =
       \<lparr>sku = ''XYZ999'', productName = ''* * * * * * *'', exist = False,
         availableQuantity = 0, quantityRequested = 3, fulfilledQuantity = 0,
         status = ''error'', variantId = None\<rparr>
   \<and> map status (fst (enrichedRows1 ex_lookup ([ex_row] @ ex_row2 # [ex_row3]) 0))
       = [''partial'', ''error'', ''error'']
   \<and> map status (fst (enrichedRows2 ex_lookup ([ex_row] @ ex_row2 # [ex_row3]) 0))
       = [''partial'', ''error'', ''sku not found'']"
proof -
  have s1: "(1::nat) = snd (enrichedRows1 ex_lookup [ex_row] 0)"
    by (simp add: enrichedRows1_def ex_lookup_def)
  have t1: "(1::nat) = snd (enrichedRows2 ex_lookup [ex_row] 0)"
    by (simp add: enrichedRows2_def ex_lookup_def)
  have r: "(Threw, 2) = ex_lookup (sku_query (sku ex_row2)) 1"
    by (simp add: ex_lookup_def numeral_2_eq_2)
  have c: "fst (Threw, 2::nat) = Threw" and d: "snd (Threw, 2::nat) = 2"
    by simp_all
  have f: "\<lparr>sku = ''XYZ999'', productName = ''* * * * * * *'', exist = False,
         availableQuantity = 0, quantityRequested = 3, fulfilledQuantity = 0,
         status = ''error'', variantId = None\<rparr>
       = ex_row2\<lparr>exist := False, productName := ''* * * * * * *'',
                     availableQuantity := 0, fulfilledQuantity := 0, status := ''error'',
                     variantId := None\<rparr>"
    by (simp add: ex_row2_def ex_row_def)
  note w = reconcile_isolates_failures [OF s1 t1 r r f,
      of "[ex_row, ex_row2, ex_row3]" "[ex_row3]"]
  have before1: "map status (fst (enrichedRows1 ex_lookup [ex_row] 0)) = [''partial'']"
    by (simp add: enrichedRows1_def ex_lookup_def enrich_row1_def ex_body_def
          row_of_edges_def matched_row_status ex_variant_total ex_row_def)
  have before2: "map status (fst (enrichedRows2 ex_lookup [ex_row] 0)) = [''partial'']"
    by (simp add: enrichedRows2_def ex_lookup_def enrich_row2_def ex_body_def
          row_of_edges_def matched_row_status ex_variant_total ex_row_def)
  have after1: "map status (fst (enrichedRows1 ex_lookup [ex_row3] 2)) = [''error'']"
    by (simp add: enrichedRows1_def ex_lookup_def enrich_row1_def ex_errors_body_def
          unresolved_row_fields)
  have after2: "map status (fst (enrichedRows2 ex_lookup [ex_row3] 2)) = [''sku not found'']"
    by (simp add: enrichedRows2_def ex_lookup_def enrich_row2_def ex_errors_body_def
          row_of_edges_def unresolved_row_fields)
  from w c have e1: "fst (enrichedRows1 ex_lookup ([ex_row] @ ex_row2 # [ex_row3]) 0) =
      fst (enrichedRows1 ex_lookup [ex_row] 0)
        @ \<lparr>sku = ''XYZ999'', productName = ''* * * * * * *'', exist = False,
            availableQuantity = 0, quantityRequested = 3, fulfilledQuantity = 0,
            status = ''error'', variantId = None\<rparr>
        # fst (enrichedRows1 ex_lookup [ex_row3] (snd (Threw, 2::nat)))"
    and n1: "fst (enrichedRows1 ex_lookup ([ex_row] @ ex_row2 # [ex_row3]) 0) ! length [ex_row] =
        \<lparr>sku = ''XYZ999'', productName = ''* * * * * * *'', exist = False,
          availableQuantity = 0, quantityRequested = 3, fulfilledQuantity = 0,
          status = ''error'', variantId = None\<rparr>"
    and e2: "fst (enrichedRows2 ex_lookup ([ex_row] @ ex_row2 # [ex_row3]) 0) =
      fst (enrichedRows2 ex_lookup [ex_row] 0)
        @ \<lparr>sku = ''XYZ999'', productName = ''* * * * * * *'', exist = False,
            availableQuantity = 0, quantityRequested = 3, fulfilledQuantity = 0,
            status = ''error'', variantId = None\<rparr>
        # fst (enrichedRows2 ex_lookup [ex_row3] (snd (Threw, 2::nat)))"
    and l: "length (fst (enrichedRows1 ex_lookup [ex_row, ex_row2, ex_row3] 0))
              = length [ex_row, ex_row2, ex_row3]"
    by blast+
  have m1: "map status (fst (enrichedRows1 ex_lookup ([ex_row] @ ex_row2 # [ex_row3]) 0))
       = [''partial'', ''error'', ''error'']"
    unfolding e1 d by (simp add: before1 after1)
  have m2: "map status (fst (enrichedRows2 ex_lookup ([ex_row] @ ex_row2 # [ex_row3]) 0))
       = [''partial'', ''error'', ''sku not found'']"
    unfolding e2 d by (simp add: before2 after2)
  from n1 have n: "fst (enrichedRows1 ex_lookup ([ex_row] @ ex_row2 # [ex_row3]) 0) ! 1 =
        \<lparr>sku = ''XYZ999'', productName = ''* * * * * * *'', exist = False,
          availableQuantity = 0, quantityRequested = 3, fulfilledQuantity = 0,
          status = ''error'', variantId = None\<rparr>"
    by simp
  from l have l3: "length (fst (enrichedRows1 ex_lookup [ex_row, ex_row2, ex_row3] 0)) = 3"
    by simp
  from s1 t1 r l3 n m1 m2 show ?thesis
    by blast
qed

subsection \<open>Lookup failure and absence\<close>

text \<open>
  Claim C5. The claim asks that a lookup that fails, an error-bearing GraphQL response
  included, is marked \<^verbatim>\<open>error\<close> and never \<^verbatim>\<open>sku not found\<close>. The first listing does
  so. The second listing gives a response that carries GraphQL errors and no data the
  status \<^verbatim>\<open>sku not found\<close>, the same as a response that reports no matching variant.
\<close>

theorem graphql_errors_marked_not_found:
  "status (enrich_row2 ex_row (Body ex_errors_body)) = ''sku not found''
   \<and> status (enrich_row1 ex_row (Body ex_errors_body)) = ''error''
   \<and> status (enrich_row2 ex_row (Body \<lparr>errors = [], edges = []\<rparr>)) = ''sku not found''"
  by (simp add: enrich_row1_def enrich_row2_def ex_errors_body_def row_of_edges_def
        unresolved_row_fields)

subsection \<open>The invariant of a reconciled row\<close>

lemma row_of_edges_shapes:
  "row_of_edges r es = unresolved_row ''sku not found'' r \<or> (\<exists>v. row_of_edges r es = matched_row r v)"
proof (cases es)
  case Nil
  then show ?thesis
    by (simp add: row_of_edges_def)
next
  case (Cons e es')
  show ?thesis
  proof (cases e)
    case None
    with Cons show ?thesis
      by (simp add: row_of_edges_def)
  next
    case (Some v)
    with Cons have "row_of_edges r es = matched_row r v"
      by (simp add: row_of_edges_def)
    then show ?thesis
      by blast
  qed
qed

lemma enrich_row_shapes:
  assumes "out = enrich_row1 r res \<or> out = enrich_row2 r res"
  shows "out = unresolved_row ''error'' r \<or> out = unresolved_row ''sku not found'' r
         \<or> (\<exists>v. out = matched_row r v)"
proof (cases res)
  case Threw
  with assms show ?thesis
    by (auto simp: enrich_row1_def enrich_row2_def)
next
  case (Body j)
  with assms row_of_edges_shapes [of r "edges j"] show ?thesis
    by (cases "errors j = []") (auto simp: enrich_row1_def enrich_row2_def)
qed

lemma matched_row_nonneg:
  assumes "0 < quantityRequested r"
  shows "0 \<le> fulfilledQuantity (matched_row r v)"
  using assms by (simp add: matched_row_fulfilled)

lemma matched_row_le_requested:
  assumes "0 < quantityRequested r"
  shows "fulfilledQuantity (matched_row r v) \<le> quantityRequested r"
  using assms by (simp add: matched_row_fulfilled)

lemma matched_row_le_available:
  assumes "0 < quantityRequested r" and "0 \<le> availableQuantity (matched_row r v)"
  shows "fulfilledQuantity (matched_row r v) \<le> availableQuantity (matched_row r v)"
  using assms by (simp add: matched_row_fulfilled matched_row_fields)

lemma matched_row_no_stock:
  assumes "availableQuantity (matched_row r v) \<le> 0"
  shows "fulfilledQuantity (matched_row r v) = 0"
  using assms by (simp add: matched_row_fulfilled matched_row_fields)

lemma matched_row_positive_status:
  assumes "0 < fulfilledQuantity (matched_row r v)"
  shows "status (matched_row r v) = ''ok'' \<or> status (matched_row r v) = ''partial''"
  using assms by (simp add: matched_row_fulfilled matched_row_status split: if_splits)

text \<open>
  Claim C9, as stated, fails: the summed availability is stored as it is, and the
  catalog reports a negative quantity for an oversold variant. For the row requesting 5
  of a variant at - 3, \<open>availableQuantity\<close> is - 3 and \<open>fulfilledQuantity\<close>, which is
  0, is above the minimum of the requested and the available quantity.
\<close>

theorem available_quantity_counterexample:
  "0 < quantityRequested ex_row
   \<and> availableQuantity (enrich_row1 ex_row (Body ex_oversold_body)) = - 3
   \<and> \<not> 0 \<le> availableQuantity (enrich_row1 ex_row (Body ex_oversold_body))
   \<and> \<not> fulfilledQuantity (enrich_row1 ex_row (Body ex_oversold_body))
          \<le> min (quantityRequested (enrich_row1 ex_row (Body ex_oversold_body)))
                (availableQuantity (enrich_row1 ex_row (Body ex_oversold_body)))"
  by (simp add: enrich_row1_def ex_oversold_body_def row_of_edges_def matched_row_fields
        matched_row_fulfilled totalAvailable_def ex_row_def)

text \<open>
  Claim C9, amended. For a parsed row (its requested quantity is positive) and any
  outcome of its lookup, in either listing: \<open>availableQuantity\<close> is an integer, and
  for a matched variant it is the sum over the inventory locations of
  \<open>location_available\<close> (possibly negative); \<open>fulfilledQuantity\<close> lies between 0 and
  \<open>quantityRequested\<close>, is at most \<open>availableQuantity\<close> whenever that is not
  negative, and is 0 whenever \<open>availableQuantity\<close> is not positive; and a positive
  \<open>fulfilledQuantity\<close> implies \<open>exist\<close> and a status of \<^verbatim>\<open>ok\<close> or \<^verbatim>\<open>partial\<close>.
\<close>

theorem reconciled_row_invariant:
  assumes "0 < quantityRequested r"
    and "out = enrich_row1 r res \<or> out = enrich_row2 r res"
  shows "(\<exists>n::int. availableQuantity out = of_int n)
       \<and> (\<forall>j v es. res = Body j \<and> edges j = Some v # es
              \<and> (out = enrich_row1 r res \<longrightarrow> errors j = []) \<longrightarrow>
            availableQuantity out = of_int (sum_list (map location_available (level_edges v))))
       \<and> 0 \<le> fulfilledQuantity out
       \<and> fulfilledQuantity out \<le> quantityRequested out
       \<and> (0 \<le> availableQuantity out \<longrightarrow>
            fulfilledQuantity out \<le> min (quantityRequested out) (availableQuantity out))
       \<and> (availableQuantity out \<le> 0 \<longrightarrow> fulfilledQuantity out = 0)
       \<and> (0 < fulfilledQuantity out \<longrightarrow> exist out \<and> status out \<in> {''ok'', ''partial''})"
proof -
  from enrich_row_shapes [OF assms(2)]
  consider (u) s where "out = unresolved_row s r" | (m) v where "out = matched_row r v"
    by blast
  then have main: "(\<exists>n::int. availableQuantity out = of_int n)
       \<and> 0 \<le> fulfilledQuantity out
       \<and> fulfilledQuantity out \<le> quantityRequested out
       \<and> (0 \<le> availableQuantity out \<longrightarrow>
            fulfilledQuantity out \<le> min (quantityRequested out) (availableQuantity out))
       \<and> (availableQuantity out \<le> 0 \<longrightarrow> fulfilledQuantity out = 0)
       \<and> (0 < fulfilledQuantity out \<longrightarrow> exist out \<and> status out \<in> {''ok'', ''partial''})"
  proof cases
    case u
    have "availableQuantity out = of_int 0"
      by (simp add: u unresolved_row_fields)
    then have "\<exists>n::int. availableQuantity out = of_int n" ..
    moreover have "fulfilledQuantity out = 0" "quantityRequested out = quantityRequested r"
      "availableQuantity out = 0"
      by (simp_all add: u unresolved_row_fields)
    ultimately show ?thesis
      using assms(1) by simp
  next
    case m
    have a: "\<exists>n::int. availableQuantity out = of_int n"
      unfolding m matched_row_fields by blast
    have q: "quantityRequested out = quantityRequested r" and e: "exist out"
      by (simp_all add: m matched_row_fields)
    have b: "0 \<le> fulfilledQuantity out" "fulfilledQuantity out \<le> quantityRequested out"
      using matched_row_nonneg [OF assms(1), of v] matched_row_le_requested [OF assms(1), of v]
      by (simp_all add: m q [unfolded m])
    have c: "0 \<le> availableQuantity out \<Longrightarrow> fulfilledQuantity out \<le> availableQuantity out"
      using matched_row_le_available [OF assms(1), of v] by (simp add: m)
    have d: "availableQuantity out \<le> 0 \<Longrightarrow> fulfilledQuantity out = 0"
      using matched_row_no_stock [of r v] by (simp add: m)
    have f: "0 < fulfilledQuantity out \<Longrightarrow> status out \<in> {''ok'', ''partial''}"
      using matched_row_positive_status [of r v] unfolding m by blast
    from a b c d e f show ?thesis
      by (simp add: min_def)
  qed
  have sum: "availableQuantity out = of_int (sum_list (map location_available (level_edges v)))"
    if "res = Body j" "edges j = Some v # es" "out = enrich_row1 r res \<longrightarrow> errors j = []"
    for j v es
  proof -
    have "enrich_row2 r res = matched_row r v"
      using that(1,2) by (simp add: enrich_row2_def row_of_edges_def)
    moreover have "errors j = [] \<Longrightarrow> enrich_row1 r res = matched_row r v"
      using that(1,2) by (simp add: enrich_row1_def row_of_edges_def)
    ultimately have "out = matched_row r v"
      using assms(2) that(3) by blast
    then show ?thesis
      by (simp add: matched_row_fields totalAvailable_sum)
  qed
  from main sum show ?thesis by blast
qed

theorem reconciled_row_invariant_witness:
  "0 < quantityRequested ex_row
   \<and> (\<exists>n::int. availableQuantity (enrich_row1 ex_row (Body ex_body)) = of_int n)
   \<and> availableQuantity (enrich_row1 ex_row (Body ex_body))
       = of_int (sum_list (map location_available (level_edges ex_variant)))
   \<and> 0 \<le> fulfilledQuantity (enrich_row1 ex_row (Body ex_body))
   \<and> fulfilledQuantity (enrich_row1 ex_row (Body ex_body))
       \<le> quantityRequested (enrich_row1 ex_row (Body ex_body))
   \<and> 0 < fulfilledQuantity (enrich_row1 ex_row (Body ex_body))
   \<and> exist (enrich_row1 ex_row (Body ex_body))
   \<and> status (enrich_row1 ex_row (Body ex_body)) \<in> {''ok'', ''partial''}"
proof -
  have h1: "0 < quantityRequested ex_row"
    by (simp add: ex_row_def)
  have h2: "enrich_row1 ex_row (Body ex_body) = enrich_row1 ex_row (Body ex_body)
            \<or> enrich_row1 ex_row (Body ex_body) = enrich_row2 ex_row (Body ex_body)"
    by simp
  have e: "edges ex_body = Some ex_variant # []" "errors ex_body = []"
    by (simp_all add: ex_body_def)
  have p: "0 < fulfilledQuantity (enrich_row1 ex_row (Body ex_body))"
    by (simp add: enrich_row1_def row_of_edges_def e matched_row_fulfilled
          ex_variant_total ex_row_def)
  note w = reconciled_row_invariant [OF h1 h2]
  from w e have "availableQuantity (enrich_row1 ex_row (Body ex_body))
       = of_int (sum_list (map location_available (level_edges ex_variant)))"
    by blast
  with w p h1 show ?thesis
    by blast
qed


subsection \<open>The create intent\<close>

lemma fulfilled_or_0_eq: "fulfilled_or_0 r = fulfilledQuantity r"
  by (simp add: fulfilled_or_0_def)

lemma included_iff:
  "included r \<longleftrightarrow>
     exist r \<and> (\<exists>v. variantId r = Some v \<and> v \<noteq> []) \<and> 0 < fulfilledQuantity r"
  by (cases "variantId r") (simp_all add: included_def fulfilled_or_0_eq)

lemma includedRows_filter:
  "includedRows rows =
     filter (\<lambda>r. exist r \<and> (\<exists>v. variantId r = Some v \<and> v \<noteq> []) \<and> 0 < fulfilledQuantity r) rows"
  unfolding includedRows_def by (rule filter_cong) (simp_all add: included_iff)

lemma total_of_foldl:
  "total_of rs = foldl (\<lambda>s r. js_add s (Fin (fulfilledQuantity r))) (Fin 0) rs"
  by (simp add: total_of_def fulfilled_or_0_eq)

lemma js_add_int:
  assumes "0 \<le> i" and "0 \<le> j" and "i + j \<le> 2 ^ 53"
  shows "js_add (Fin (of_int i)) (Fin (of_int j)) = Fin (of_int (i + j))"
proof -
  have "to_double (of_int (i + j)) = Fin (of_int (i + j))"
    using assms by (intro to_double_int) simp_all
  then show ?thesis
    by simp
qed

lemma foldl_js_add_int:
  assumes "0 \<le> i" and "\<forall>j \<in> set js. 0 \<le> j" and "i + sum_list js \<le> 2 ^ 53"
  shows "foldl (\<lambda>s j. js_add s (Fin (of_int j))) (Fin (of_int i)) js
           = Fin (of_int (i + sum_list js))"
  using assms
proof (induction js arbitrary: i)
  case Nil
  then show ?case
    by simp
next
  case (Cons j js)
  have rest: "0 \<le> sum_list js"
    using Cons.prems(2) by (simp add: sum_list_nonneg)
  have j: "0 \<le> j"
    using Cons.prems(2) by simp
  have step: "js_add (Fin (of_int i)) (Fin (of_int j)) = Fin (of_int (i + j))"
    using Cons.prems(1,3) j rest by (intro js_add_int) simp_all
  have "foldl (\<lambda>s j. js_add s (Fin (of_int j))) (Fin (of_int (i + j))) js
          = Fin (of_int (i + j + sum_list js))"
    using Cons.prems j by (intro Cons.IH) simp_all
  with step show ?case
    by (simp add: add.assoc)
qed

lemma sum_list_of_int: "sum_list (map of_int js) = (of_int (sum_list js) :: rat)"
  by (induction js) simp_all

lemma total_of_integers:
  assumes "\<forall>r \<in> set rs. \<exists>k::int. 0 \<le> k \<and> fulfilledQuantity r = of_int k"
    and "sum_list (map fulfilledQuantity rs) \<le> 2 ^ 53"
  shows "total_of rs = Fin (sum_list (map fulfilledQuantity rs))"
proof -
  from assms(1) have "\<exists>js. (\<forall>j \<in> set js. 0 \<le> j) \<and> map fulfilledQuantity rs = map of_int js"
  proof (induction rs)
    case Nil
    then show ?case
      by simp
  next
    case (Cons r rs)
    then obtain js where js: "\<forall>j \<in> set js. 0 \<le> j" "map fulfilledQuantity rs = map of_int js"
      by auto
    from Cons.prems obtain k :: int where k: "0 \<le> k" "fulfilledQuantity r = of_int k"
      by auto
    from js k have "(\<forall>j \<in> set (k # js). 0 \<le> j)
        \<and> map fulfilledQuantity (r # rs) = map of_int (k # js)"
      by simp
    then show ?case
      by blast
  qed
  then obtain js :: "int list" where js: "\<forall>j \<in> set js. 0 \<le> j"
    and m: "map fulfilledQuantity rs = map of_int js"
    by blast
  have s: "sum_list (map fulfilledQuantity rs) = of_int (sum_list js)"
    by (simp add: m sum_list_of_int)
  with assms(2) have "(of_int (sum_list js) :: rat) \<le> of_int (2 ^ 53)"
    by simp
  then have le: "0 + sum_list js \<le> 2 ^ 53"
    by (simp only: of_int_le_iff add_0)
  have "total_of rs = foldl (\<lambda>s x. js_add s (Fin x)) (Fin 0) (map fulfilledQuantity rs)"
    by (simp add: total_of_foldl foldl_map)
  also have "\<dots> = foldl (\<lambda>s j. js_add s (Fin (of_int j))) (Fin (of_int 0)) js"
    by (simp add: m foldl_map)
  also have "\<dots> = Fin (of_int (0 + sum_list js))"
    using js le by (intro foldl_js_add_int) simp_all
  finally show ?thesis
    by (simp add: s)
qed

lemma ex_doubles:
  "str_to_num ''0.1'' = Fin (3602879701896397 / 2 ^ 55)"
  "str_to_num ''0.2'' = Fin (3602879701896397 / 2 ^ 54)"
  by code_simp+

lemma ex_double_sum:
  "js_add (js_add (Fin 0) (Fin (3602879701896397 / 2 ^ 55))) (Fin (3602879701896397 / 2 ^ 54))
     = Fin (5404319552844596 / 2 ^ 54)"
  by code_simp

lemma order_requests_append: "order_requests (xs @ ys) = order_requests xs @ order_requests ys"
  by (induction xs rule: order_requests.induct) simp_all

lemma history_writes_append: "history_writes (xs @ ys) = history_writes xs @ history_writes ys"
  by (induction xs rule: history_writes.induct) simp_all

lemma create_from_nothing:
  assumes "includedRows (previewRows_of jp (f_previewJson f)) = []"
  shows "create_from ocr ctx pre jp sv store f =
           (ErrorResult
              ''No rows with available inventory to create a draft order. Please check the preview.''
              (str_or (f_customerName f) ''Unknown Customer'') (str_or (f_customerId f) [])
              (previewRows_of jp (f_previewJson f)),
            pre @ [ShopIdQuery], store)"
  using assms by (simp add: create_from_def Let_def)

lemma create_from_requests:
  assumes "includedRows (previewRows_of jp (f_previewJson f)) \<noteq> []"
  shows "\<exists>q. order_requests (fst (snd (create_from ocr ctx pre jp sv store f)))
               = order_requests pre @ [q]
             \<and> lineItems q = lineItems_of (includedRows (previewRows_of jp (f_previewJson f)))
             \<and> totalQuantity q = total_of (includedRows (previewRows_of jp (f_previewJson f)))"
  using assms
  by (simp add: create_from_def Let_def order_requests_append
        split: sum.split option.split)

lemma create_from_failed:
  assumes "includedRows (previewRows_of jp (f_previewJson f)) \<noteq> []"
    and "ocr (oc sv) = Inl m \<or> ocr (oc sv) = Inr None"
  shows "\<exists>m'. fst (create_from ocr ctx pre jp sv store f) =
           ErrorResult (''Failed to create draft order via external service. '' @ m')
              (str_or (f_customerName f) ''Unknown Customer'') (str_or (f_customerId f) [])
              (previewRows_of jp (f_previewJson f))"
    and "history_writes (fst (snd (create_from ocr ctx pre jp sv store f))) = history_writes pre"
    and "snd (snd (create_from ocr ctx pre jp sv store f)) = store"
  using assms
  by (auto simp: create_from_def Let_def history_writes_append)

lemma create_from_created:
  assumes "includedRows (previewRows_of jp (f_previewJson f)) \<noteq> []"
    and "ocr (oc sv) = Inr (Some d)"
  shows "fst (create_from ocr ctx pre jp sv store f) =
           RedirectTo (''/app?createdOrderName='' @ encodeURIComponent (order_label d))"
    and "\<exists>h. history_writes (fst (snd (create_from ocr ctx pre jp sv store f)))
               = history_writes pre @ [h]
             \<and> snd (snd (create_from ocr ctx pre jp sv store f)) = save_history (db sv) h store"
  using assms
  by (simp_all add: create_from_def Let_def history_writes_append)

lemma getB2BContext_trace:
  "snd (getB2BContext resp gid) = (if gid = [] then [] else [B2BContextQuery gid])"
  by (simp add: getB2BContext_def)

lemma history_writes_pre:
  "history_writes (snd (getB2BContext resp gid)) = []"
  by (simp add: getB2BContext_def)

lemma action_create2_unfold:
  "action_create2 jp sv store f =
     create_from oc_result2 (Some (fst (getB2BContext (b2b sv) (str_or (f_customerId f) []))))
       (snd (getB2BContext (b2b sv) (str_or (f_customerId f) []))) jp sv store f"
  by (simp add: action_create2_def split: prod.split)

lemma oc_result_created:
  assumes "oc sv = OcJson (Some j)" and "success j" and "draftOrder j = Some d"
  shows "oc_result1 (oc sv) = Inr (Some d)" and "oc_result2 (oc sv) = Inr (Some d)"
  using assms by (simp_all add: oc_result1_def oc_result2_def oc_checked_def)

lemma oc_result_failed:
  assumes "(\<exists>st txt. oc sv = HttpError st txt) \<or> (\<exists>m. oc sv = InvalidJson m)
           \<or> (\<exists>m. oc sv = FetchThrew m) \<or> oc sv = OcJson None
           \<or> (\<exists>j. oc sv = OcJson (Some j) \<and> (\<not> success j \<or> draftOrder j = None))"
  shows "\<exists>m. oc_result1 (oc sv) = Inl m" and "\<exists>m. oc_result2 (oc sv) = Inl m"
  using assms by (auto simp: oc_result1_def oc_result2_def oc_checked_def)

lemma ex_rows:
  "previewRows_of ex_parse (f_previewJson (ex_form ''both'')) = [ex_included_row, ex_missing_row]"
  "previewRows_of ex_parse (f_previewJson (ex_form ''missing'')) = [ex_missing_row]"
  "previewRows_of ex_parse (f_previewJson (ex_form ''{'')) = []"
  by (simp_all add: previewRows_of_def ex_form_def ex_parse_def)

lemma ex_included:
  "includedRows [ex_included_row, ex_missing_row] = [ex_included_row]"
  "includedRows [ex_missing_row] = []"
  by (simp_all add: includedRows_def included_def fulfilled_or_0_def
        ex_included_row_def ex_missing_row_def)

lemma create_requests_sent:
  assumes "includedRows (previewRows_of jp (f_previewJson f)) \<noteq> []"
    and "sel = includedRows (previewRows_of jp (f_previewJson f))"
  shows "map lineItems (order_requests (fst (snd (action_create1 jp sv store f))))
           = [lineItems_of sel]"
    and "map totalQuantity (order_requests (fst (snd (action_create1 jp sv store f))))
           = [total_of sel]"
    and "map lineItems (order_requests (fst (snd (action_create2 jp sv store f))))
           = [lineItems_of sel]"
    and "map totalQuantity (order_requests (fst (snd (action_create2 jp sv store f))))
           = [total_of sel]"
proof -
  from create_from_requests [where ocr = oc_result1 and ctx = None and pre = "[]"
      and sv = sv and store = store, OF assms(1)]
  show "map lineItems (order_requests (fst (snd (action_create1 jp sv store f))))
           = [lineItems_of sel]"
    and "map totalQuantity (order_requests (fst (snd (action_create1 jp sv store f))))
           = [total_of sel]"
    by (auto simp: action_create1_def assms(2))
  have pre: "order_requests (snd (getB2BContext (b2b sv) (str_or (f_customerId f) []))) = []"
    by (simp add: getB2BContext_trace)
  from create_from_requests [where ocr = oc_result2
      and ctx = "Some (fst (getB2BContext (b2b sv) (str_or (f_customerId f) [])))"
      and pre = "snd (getB2BContext (b2b sv) (str_or (f_customerId f) []))"
      and sv = sv and store = store, OF assms(1)] pre
  show "map lineItems (order_requests (fst (snd (action_create2 jp sv store f))))
           = [lineItems_of sel]"
    and "map totalQuantity (order_requests (fst (snd (action_create2 jp sv store f))))
           = [total_of sel]"
    by (auto simp: action_create2_unfold assms(2))
qed

lemma create_requests_none:
  assumes "includedRows (previewRows_of jp (f_previewJson f)) = []"
  shows "order_requests (fst (snd (action_create1 jp sv store f))) = []"
    and "order_requests (fst (snd (action_create2 jp sv store f))) = []"
  using assms
  by (simp_all add: action_create1_def action_create2_unfold create_from_nothing
        getB2BContext_trace)

lemma ex_fraction_rows:
  "includedRows (previewRows_of ex_parse_fractions (f_previewJson (ex_form ''rows'')))
     = [ex_tenth_row, ex_fifth_row]"
  by (simp add: previewRows_of_def ex_form_def ex_parse_fractions_def includedRows_def
        included_def fulfilled_or_0_def ex_tenth_row_def ex_fifth_row_def)

text \<open>
  Claim C2, as stated, fails in its last part: \<^verbatim>\<open>totalQuantity\<close> is computed by adding
  doubles, and a sum of doubles is rounded. For two rows whose fulfilled quantities are
  the doubles of the texts \<^verbatim>\<open>0.1\<close> and \<^verbatim>\<open>0.2\<close> (quantities the parser admits), both
  included, the total sent differs from the sum of the two quantities.
\<close>

theorem total_quantity_counterexample:
  "str_to_num ''0.1'' = Fin (fulfilledQuantity ex_tenth_row)
   \<and> str_to_num ''0.2'' = Fin (fulfilledQuantity ex_fifth_row)
   \<and> includedRows (previewRows_of ex_parse_fractions (f_previewJson (ex_form ''rows'')))
       = [ex_tenth_row, ex_fifth_row]
   \<and> map totalQuantity
         (order_requests (fst (snd (action_create1 ex_parse_fractions ex_services []
            (ex_form ''rows'')))))
       = [Fin (5404319552844596 / 2 ^ 54)]
   \<and> sum_list (map fulfilledQuantity [ex_tenth_row, ex_fifth_row])
       = 10808639105689191 / 2 ^ 55
   \<and> Fin (5404319552844596 / 2 ^ 54) \<noteq> Fin (10808639105689191 / 2 ^ 55)"
proof -
  have q: "fulfilledQuantity ex_tenth_row = 3602879701896397 / 2 ^ 55"
    "fulfilledQuantity ex_fifth_row = 3602879701896397 / 2 ^ 54"
    by (simp_all add: ex_tenth_row_def ex_fifth_row_def)
  have ne: "includedRows (previewRows_of ex_parse_fractions (f_previewJson (ex_form ''rows'')))
              \<noteq> []"
    by (simp add: ex_fraction_rows)
  have t: "total_of [ex_tenth_row, ex_fifth_row] = Fin (5404319552844596 / 2 ^ 54)"
    unfolding total_of_foldl foldl_Cons foldl_Nil q by (rule ex_double_sum)
  have s: "map totalQuantity
         (order_requests (fst (snd (action_create1 ex_parse_fractions ex_services []
            (ex_form ''rows'')))))
       = [Fin (5404319552844596 / 2 ^ 54)]"
    using create_requests_sent(2) [OF ne ex_fraction_rows [symmetric], of ex_services "[]"]
    by (simp only: t)
  have d: "sum_list (map fulfilledQuantity [ex_tenth_row, ex_fifth_row])
       = 10808639105689191 / 2 ^ 55"
    by (simp add: q)
  have n: "Fin (5404319552844596 / 2 ^ 54) \<noteq> Fin (10808639105689191 / 2 ^ 55)"
    by simp
  from ex_doubles ex_fraction_rows s d n show ?thesis
    unfolding q by blast
qed

text \<open>
  Claim C2, amended. Let \<open>sel\<close> be the round-tripped rows with \<open>exist\<close> true, a
  \<open>variantId\<close> that is neither null nor empty and a positive \<open>fulfilledQuantity\<close>, in
  their order. When \<open>sel\<close> is empty no order-creation request is sent. Otherwise
  exactly one is sent; its \<open>lineItems\<close> are one entry per row of \<open>sel\<close>, carrying that
  row's \<open>variantId\<close> and \<open>fulfilledQuantity\<close>, and its \<open>totalQuantity\<close> is the
  left-to-right double sum of \<open>fulfilledQuantity\<close> over \<open>sel\<close>, starting at 0. That
  total is the exact sum whenever the fulfilled quantities of \<open>sel\<close> are integers and
  their sum is at most \<open>2^53\<close>. Both listings agree.
\<close>

theorem submitted_line_items:
  assumes "sel = filter (\<lambda>r. exist r \<and> (\<exists>v. variantId r = Some v \<and> v \<noteq> [])
                              \<and> 0 < fulfilledQuantity r)
                   (previewRows_of jp (f_previewJson f))"
  shows "map lineItems (order_requests (fst (snd (action_create1 jp sv store f)))) =
           (if sel = [] then []
            else [map (\<lambda>r. \<lparr>li_quantity = fulfilledQuantity r, li_variantId = variantId r\<rparr>) sel])
       \<and> map lineItems (order_requests (fst (snd (action_create2 jp sv store f)))) =
           (if sel = [] then []
            else [map (\<lambda>r. \<lparr>li_quantity = fulfilledQuantity r, li_variantId = variantId r\<rparr>) sel])
       \<and> map totalQuantity (order_requests (fst (snd (action_create1 jp sv store f)))) =
           (if sel = [] then []
            else [foldl (\<lambda>s r. js_add s (Fin (fulfilledQuantity r))) (Fin 0) sel])
       \<and> map totalQuantity (order_requests (fst (snd (action_create2 jp sv store f)))) =
           (if sel = [] then []
            else [foldl (\<lambda>s r. js_add s (Fin (fulfilledQuantity r))) (Fin 0) sel])
       \<and> ((\<forall>r \<in> set sel. \<exists>k::int. fulfilledQuantity r = of_int k)
            \<and> sum_list (map fulfilledQuantity sel) \<le> 2 ^ 53 \<longrightarrow>
            map totalQuantity (order_requests (fst (snd (action_create1 jp sv store f)))) =
              (if sel = [] then [] else [Fin (sum_list (map fulfilledQuantity sel))])
            \<and> map totalQuantity (order_requests (fst (snd (action_create2 jp sv store f)))) =
              (if sel = [] then [] else [Fin (sum_list (map fulfilledQuantity sel))]))"
proof -
  have sel: "sel = includedRows (previewRows_of jp (f_previewJson f))"
    by (simp add: assms includedRows_filter)
  have exact: "total_of sel = Fin (sum_list (map fulfilledQuantity sel))"
    if i: "\<forall>r \<in> set sel. \<exists>k::int. fulfilledQuantity r = of_int k"
      and b: "sum_list (map fulfilledQuantity sel) \<le> 2 ^ 53"
  proof (rule total_of_integers)
    show "\<forall>r \<in> set sel. \<exists>k::int. 0 \<le> k \<and> fulfilledQuantity r = of_int k"
    proof
      fix r
      assume r: "r \<in> set sel"
      with i obtain k :: int where k: "fulfilledQuantity r = of_int k"
        by blast
      from r have "0 < fulfilledQuantity r"
        by (simp add: assms)
      with k have "0 \<le> k"
        by simp
      with k show "\<exists>k::int. 0 \<le> k \<and> fulfilledQuantity r = of_int k"
        by blast
    qed
    show "sum_list (map fulfilledQuantity sel) \<le> 2 ^ 53"
      by (fact b)
  qed
  show ?thesis
  proof (cases "sel = []")
    case True
    then have "includedRows (previewRows_of jp (f_previewJson f)) = []"
      by (simp add: sel)
    from create_requests_none [OF this, of sv store] True show ?thesis
      by simp
  next
    case False
    then have ne: "includedRows (previewRows_of jp (f_previewJson f)) \<noteq> []"
      by (simp add: sel)
    note sent = create_requests_sent [OF ne sel, of sv store]
    from sent False exact show ?thesis
      by (simp add: lineItems_of_def total_of_foldl)
  qed
qed

theorem submitted_line_items_witness:
  "filter (\<lambda>r. exist r \<and> (\<exists>v. variantId r = Some v \<and> v \<noteq> []) \<and> 0 < fulfilledQuantity r)
       (previewRows_of ex_parse (f_previewJson (ex_form ''both''))) = [ex_included_row]
   \<and> fulfilledQuantity ex_included_row = of_int 2
   \<and> sum_list (map fulfilledQuantity [ex_included_row]) \<le> 2 ^ 53
   \<and> map lineItems (order_requests (fst (snd (action_create1 ex_parse ex_services [] (ex_form ''both'')))))
       = [[\<lparr>li_quantity = 2, li_variantId = Some ''gid://shopify/ProductVariant/1''\<rparr>]]
   \<and> map totalQuantity (order_requests (fst (snd (action_create2 ex_parse ex_services [] (ex_form ''both'')))))
       = [Fin 2]"
proof -
  have h: "filter (\<lambda>r. exist r \<and> (\<exists>v. variantId r = Some v \<and> v \<noteq> []) \<and> 0 < fulfilledQuantity r)
       (previewRows_of ex_parse (f_previewJson (ex_form ''both''))) = [ex_included_row]"
    by (simp add: ex_rows ex_included_row_def ex_missing_row_def)
  have v: "fulfilledQuantity ex_included_row = 2"
    "variantId ex_included_row = Some ''gid://shopify/ProductVariant/1''"
    by (simp_all add: ex_included_row_def)
  have k: "fulfilledQuantity ex_included_row = of_int 2"
    by (simp add: v)
  then have i: "\<forall>r \<in> set [ex_included_row]. \<exists>k::int. fulfilledQuantity r = of_int k"
    by (simp del: of_int_numeral)
  have b: "sum_list (map fulfilledQuantity [ex_included_row]) \<le> 2 ^ 53"
    by (simp add: v)
  note w = submitted_line_items [OF h [symmetric], of ex_services "[]"]
  from w have li:
    "map lineItems (order_requests (fst (snd (action_create1 ex_parse ex_services [] (ex_form ''both'')))))
       = (if [ex_included_row] = [] then []
          else [map (\<lambda>r. \<lparr>li_quantity = fulfilledQuantity r, li_variantId = variantId r\<rparr>)
                  [ex_included_row]])"
    by blast
  from w i b have tq:
    "map totalQuantity (order_requests (fst (snd (action_create2 ex_parse ex_services [] (ex_form ''both'')))))
       = (if [ex_included_row] = [] then []
          else [Fin (sum_list (map fulfilledQuantity [ex_included_row]))])"
    by blast
  have "map lineItems (order_requests (fst (snd (action_create1 ex_parse ex_services [] (ex_form ''both'')))))
       = [[\<lparr>li_quantity = 2, li_variantId = Some ''gid://shopify/ProductVariant/1''\<rparr>]]"
    unfolding li by (simp add: v)
  moreover have "map totalQuantity (order_requests (fst (snd (action_create2 ex_parse ex_services [] (ex_form ''both'')))))
       = [Fin 2]"
    unfolding tq by (simp add: v)
  ultimately show ?thesis
    using h k b by blast
qed

text \<open>
  Claim C6, as stated, fails: the action queries the shop id (and, in the second
  listing, the B2B context) before it reads the rows, so a confirm with no includable
  row has already made calls to an external service when it returns the error.
\<close>

theorem nothing_to_order_counterexample:
  "includedRows (previewRows_of ex_parse (f_previewJson (ex_form ''missing''))) = []
   \<and> fst (snd (action_create1 ex_parse ex_services [] (ex_form ''missing''))) = [ShopIdQuery]
   \<and> fst (snd (action_create1 ex_parse ex_services [] (ex_form ''missing''))) \<noteq> []
   \<and> fst (snd (action_create2 ex_parse ex_services [] (ex_form ''missing'')))
       = [B2BContextQuery ''gid://shopify/Customer/7'', ShopIdQuery]"
proof -
  have n: "includedRows (previewRows_of ex_parse (f_previewJson (ex_form ''missing''))) = []"
    by (simp add: ex_rows ex_included)
  have c: "str_or (f_customerId (ex_form ''missing'')) [] = ''gid://shopify/Customer/7''"
    by (simp add: ex_form_def str_or_def)
  show ?thesis
    by (simp add: n c action_create1_def action_create2_unfold create_from_nothing
          getB2BContext_trace)
qed

text \<open>
  Claim C6, amended. A confirm whose rows contain no includable row returns the error
  \<^verbatim>\<open>No rows with available inventory ...\<close> with the customer fields and the rows as
  received; it sends no order-creation request and writes no history record, and the
  history store is unchanged. The calls it has made are the shop-id query and, in the
  second listing and for a non-empty customer id, the B2B context query before it.
\<close>

theorem nothing_to_order:
  assumes "includedRows (previewRows_of jp (f_previewJson f)) = []"
    and "cn = str_or (f_customerName f) ''Unknown Customer''"
    and "ci = str_or (f_customerId f) []"
  shows "action_create1 jp sv store f =
           (ErrorResult
              ''No rows with available inventory to create a draft order. Please check the preview.''
              cn ci (previewRows_of jp (f_previewJson f)),
            [ShopIdQuery], store)
       \<and> action_create2 jp sv store f =
           (ErrorResult
              ''No rows with available inventory to create a draft order. Please check the preview.''
              cn ci (previewRows_of jp (f_previewJson f)),
            (if ci = [] then [] else [B2BContextQuery ci]) @ [ShopIdQuery], store)
       \<and> order_requests (fst (snd (action_create1 jp sv store f))) = []
       \<and> history_writes (fst (snd (action_create1 jp sv store f))) = []
       \<and> order_requests (fst (snd (action_create2 jp sv store f))) = []
       \<and> history_writes (fst (snd (action_create2 jp sv store f))) = []"
  using assms
  by (simp add: action_create1_def action_create2_unfold create_from_nothing
        getB2BContext_trace)

theorem nothing_to_order_witness:
  "includedRows (previewRows_of ex_parse (f_previewJson (ex_form ''missing''))) = []
   \<and> action_create2 ex_parse ex_services [] (ex_form ''missing'') =
       (ErrorResult
          ''No rows with available inventory to create a draft order. Please check the preview.''
          ''Ann'' ''gid://shopify/Customer/7'' [ex_missing_row],
        [B2BContextQuery ''gid://shopify/Customer/7'', ShopIdQuery], [])
   \<and> order_requests (fst (snd (action_create1 ex_parse ex_services [] (ex_form ''missing'')))) = []"
proof -
  have n: "includedRows (previewRows_of ex_parse (f_previewJson (ex_form ''missing''))) = []"
    by (simp add: ex_rows ex_included)
  have cn: "''Ann'' = str_or (f_customerName (ex_form ''missing'')) ''Unknown Customer''"
    by (simp add: ex_form_def str_or_def)
  have ci: "''gid://shopify/Customer/7'' = str_or (f_customerId (ex_form ''missing'')) []"
    by (simp add: ex_form_def str_or_def)
  from nothing_to_order [OF n cn ci, of ex_services "[]"] n show ?thesis
    by (simp add: ex_rows)
qed

text \<open>
  Claim C7. When rows are includable and the order-creation response is JSON with a
  true \<open>success\<close> and a \<open>draftOrder\<close>, the confirm returns the redirect to
  \<^verbatim>\<open>/app?createdOrderName=\<close> followed by the encoded label of the order (its name when
  it has one), and its trace holds exactly one history write. This holds whether the
  write throws or saves: when it throws the store is left as it was, when it saves
  the store gains the record.
\<close>

theorem history_failure_swallowed:
  assumes "includedRows (previewRows_of jp (f_previewJson f)) \<noteq> []"
    and "oc sv = OcJson (Some j)" and "success j" and "draftOrder j = Some d"
  shows "fst (action_create1 jp sv store f) =
           RedirectTo (''/app?createdOrderName='' @ encodeURIComponent (order_label d))
       \<and> fst (action_create2 jp sv store f) =
           RedirectTo (''/app?createdOrderName='' @ encodeURIComponent (order_label d))
       \<and> length (history_writes (fst (snd (action_create1 jp sv store f)))) = 1
       \<and> length (history_writes (fst (snd (action_create2 jp sv store f)))) = 1
       \<and> (db sv = DbThrew \<longrightarrow>
            snd (snd (action_create1 jp sv store f)) = store
            \<and> snd (snd (action_create2 jp sv store f)) = store)
       \<and> (db sv = DbSaved \<longrightarrow>
            snd (snd (action_create1 jp sv store f))
              = store @ history_writes (fst (snd (action_create1 jp sv store f)))
            \<and> snd (snd (action_create2 jp sv store f))
              = store @ history_writes (fst (snd (action_create2 jp sv store f))))
       \<and> (\<forall>n. order_name d = Some n \<and> n \<noteq> [] \<longrightarrow> order_label d = n)"
proof -
  note r = oc_result_created [OF assms(2,3,4)]
  note a1 = create_from_created [where ocr = oc_result1 and sv = sv and ctx = None
      and pre = "[]" and store = store, OF assms(1) r(1)]
  note a2 = create_from_created [where ocr = oc_result2 and sv = sv
      and ctx = "Some (fst (getB2BContext (b2b sv) (str_or (f_customerId f) [])))"
      and pre = "snd (getB2BContext (b2b sv) (str_or (f_customerId f) []))"
      and store = store, OF assms(1) r(2)]
  from a1(2) obtain h1 where
    h1: "history_writes (fst (snd (action_create1 jp sv store f))) = [h1]"
        "snd (snd (action_create1 jp sv store f)) = save_history (db sv) h1 store"
    by (auto simp: action_create1_def)
  from a2(2) obtain h2 where
    h2: "history_writes (fst (snd (action_create2 jp sv store f))) = [h2]"
        "snd (snd (action_create2 jp sv store f)) = save_history (db sv) h2 store"
    by (auto simp: action_create2_unfold history_writes_pre)
  have lab: "\<forall>n. order_name d = Some n \<and> n \<noteq> [] \<longrightarrow> order_label d = n"
    by (simp add: order_label_def str_or_def Let_def)
  from a1(1) a2(1) h1 h2 lab show ?thesis
    by (simp add: action_create1_def action_create2_unfold save_history_def)
qed

theorem history_failure_swallowed_witness:
  "includedRows (previewRows_of ex_parse (f_previewJson (ex_form ''both''))) \<noteq> []
   \<and> oc ex_services = OcJson (Some \<lparr>success = True, draftOrder = Some ex_draft, oc_error = None\<rparr>)
   \<and> db ex_services = DbThrew
   \<and> fst (action_create1 ex_parse ex_services [] (ex_form ''both'')) =
       RedirectTo (''/app?createdOrderName='' @ encodeURIComponent ''D24'')
   \<and> length (history_writes (fst (snd (action_create1 ex_parse ex_services [] (ex_form ''both''))))) = 1
   \<and> snd (snd (action_create1 ex_parse ex_services [] (ex_form ''both''))) = []"
proof -
  have n: "includedRows (previewRows_of ex_parse (f_previewJson (ex_form ''both''))) \<noteq> []"
    by (simp add: ex_rows ex_included)
  have o: "oc ex_services = OcJson (Some \<lparr>success = True, draftOrder = Some ex_draft, oc_error = None\<rparr>)"
    by (simp add: ex_services_def)
  have s: "success \<lparr>success = True, draftOrder = Some ex_draft, oc_error = None\<rparr>"
    and d: "draftOrder \<lparr>success = True, draftOrder = Some ex_draft, oc_error = None\<rparr> = Some ex_draft"
    by simp_all
  have t: "db ex_services = DbThrew"
    by (simp add: ex_services_def)
  have l: "order_name ex_draft = Some ''D24''"
    by (simp add: ex_draft_def)
  note w = history_failure_swallowed [OF n o s d, of "[]"]
  from w l have "order_label ex_draft = ''D24''"
    by simp
  with w n o t show ?thesis
    by simp
qed

text \<open>
  Claim C8. When rows are includable and the order-creation call fails (\<^verbatim>\<open>fetch\<close>
  rejects, the response is not \<^verbatim>\<open>ok\<close>, its body is not JSON or is \<^verbatim>\<open>null\<close>, or the JSON
  lacks a true \<open>success\<close> or a \<open>draftOrder\<close>), the confirm returns an error whose
  message starts with \<^verbatim>\<open>Failed to create draft order via external service.\<close> and whose
  \<^verbatim>\<open>previewRows\<close> are the rows as received; no history write is attempted and the
  store is unchanged.
\<close>

theorem order_failure_keeps_rows:
  assumes "rows = previewRows_of jp (f_previewJson f)"
    and "includedRows rows \<noteq> []"
    and "(\<exists>st txt. oc sv = HttpError st txt) \<or> (\<exists>m. oc sv = InvalidJson m)
         \<or> (\<exists>m. oc sv = FetchThrew m) \<or> oc sv = OcJson None
         \<or> (\<exists>j. oc sv = OcJson (Some j) \<and> (\<not> success j \<or> draftOrder j = None))"
  shows "(\<exists>m. fst (action_create1 jp sv store f) =
              ErrorResult (''Failed to create draft order via external service. '' @ m)
                (str_or (f_customerName f) ''Unknown Customer'') (str_or (f_customerId f) []) rows)
       \<and> (\<exists>m. fst (action_create2 jp sv store f) =
              ErrorResult (''Failed to create draft order via external service. '' @ m)
                (str_or (f_customerName f) ''Unknown Customer'') (str_or (f_customerId f) []) rows)
       \<and> history_writes (fst (snd (action_create1 jp sv store f))) = []
       \<and> history_writes (fst (snd (action_create2 jp sv store f))) = []
       \<and> snd (snd (action_create1 jp sv store f)) = store
       \<and> snd (snd (action_create2 jp sv store f)) = store"
proof -
  have ne: "includedRows (previewRows_of jp (f_previewJson f)) \<noteq> []"
    using assms(1,2) by simp
  from oc_result_failed [OF assms(3)] obtain m1 m2 where
    m: "oc_result1 (oc sv) = Inl m1" "oc_result2 (oc sv) = Inl m2"
    by blast
  have f1: "oc_result1 (oc sv) = Inl m1 \<or> oc_result1 (oc sv) = Inr None"
    and f2: "oc_result2 (oc sv) = Inl m2 \<or> oc_result2 (oc sv) = Inr None"
    using m by simp_all
  note a1 = create_from_failed [where ocr = oc_result1 and sv = sv and ctx = None
      and pre = "[]" and store = store, OF ne f1]
  note a2 = create_from_failed [where ocr = oc_result2 and sv = sv
      and ctx = "Some (fst (getB2BContext (b2b sv) (str_or (f_customerId f) [])))"
      and pre = "snd (getB2BContext (b2b sv) (str_or (f_customerId f) []))"
      and store = store, OF ne f2]
  from a1 a2 show ?thesis
    by (simp add: action_create1_def action_create2_unfold history_writes_pre assms(1))
qed

theorem order_failure_keeps_rows_witness:
  "[ex_included_row, ex_missing_row] = previewRows_of ex_parse (f_previewJson (ex_form ''both''))
   \<and> includedRows [ex_included_row, ex_missing_row] \<noteq> []
   \<and> oc (ex_services\<lparr>oc := HttpError 502 ''Bad Gateway'', db := DbSaved\<rparr>) = HttpError 502 ''Bad Gateway''
   \<and> (\<exists>m. fst (action_create1 ex_parse (ex_services\<lparr>oc := HttpError 502 ''Bad Gateway'', db := DbSaved\<rparr>)
                  [] (ex_form ''both'')) =
              ErrorResult (''Failed to create draft order via external service. '' @ m)
                ''Ann'' ''gid://shopify/Customer/7'' [ex_included_row, ex_missing_row])
   \<and> history_writes (fst (snd (action_create2 ex_parse
         (ex_services\<lparr>oc := HttpError 502 ''Bad Gateway'', db := DbSaved\<rparr>) [] (ex_form ''both'')))) = []
   \<and> snd (snd (action_create2 ex_parse
         (ex_services\<lparr>oc := HttpError 502 ''Bad Gateway'', db := DbSaved\<rparr>) [] (ex_form ''both''))) = []"
proof -
  have r: "[ex_included_row, ex_missing_row] = previewRows_of ex_parse (f_previewJson (ex_form ''both''))"
    by (simp add: ex_rows)
  have n: "includedRows [ex_included_row, ex_missing_row] \<noteq> []"
    by (simp add: ex_included)
  have o: "oc (ex_services\<lparr>oc := HttpError 502 ''Bad Gateway'', db := DbSaved\<rparr>) = HttpError 502 ''Bad Gateway''"
    by simp
  then have c: "(\<exists>st txt. oc (ex_services\<lparr>oc := HttpError 502 ''Bad Gateway'', db := DbSaved\<rparr>) = HttpError st txt)
         \<or> (\<exists>m. oc (ex_services\<lparr>oc := HttpError 502 ''Bad Gateway'', db := DbSaved\<rparr>) = InvalidJson m)
         \<or> (\<exists>m. oc (ex_services\<lparr>oc := HttpError 502 ''Bad Gateway'', db := DbSaved\<rparr>) = FetchThrew m)
         \<or> oc (ex_services\<lparr>oc := HttpError 502 ''Bad Gateway'', db := DbSaved\<rparr>) = OcJson None
         \<or> (\<exists>j. oc (ex_services\<lparr>oc := HttpError 502 ''Bad Gateway'', db := DbSaved\<rparr>) = OcJson (Some j)
               \<and> (\<not> success j \<or> draftOrder j = None))"
    by blast
  have names: "str_or (f_customerName (ex_form ''both'')) ''Unknown Customer'' = ''Ann''"
    "str_or (f_customerId (ex_form ''both'')) [] = ''gid://shopify/Customer/7''"
    by (simp_all add: ex_form_def str_or_def)
  note w = order_failure_keeps_rows [OF r n c, of "[]"]
  from w r n o show ?thesis
    unfolding names by blast
qed

lemma create_intent_string_id:
  assumes "fd_customerId fd \<noteq> FileEntry"
  shows "create_intent act fd =
           Inr (act \<lparr>f_customerName = fd_customerName fd,
                      f_customerId = (case fd_customerId fd of Text t \<Rightarrow> Some t | _ \<Rightarrow> None),
                      f_previewJson = fd_previewJson fd\<rparr>)"
  using assms by (cases "fd_customerId fd") (simp_all add: create_intent_def)

lemma action_create_nothing:
  assumes "includedRows (previewRows_of jp (f_previewJson f)) = []"
  shows "action_create1 jp sv store f =
           (ErrorResult
              ''No rows with available inventory to create a draft order. Please check the preview.''
              (str_or (f_customerName f) ''Unknown Customer'') (str_or (f_customerId f) [])
              (previewRows_of jp (f_previewJson f)),
            [ShopIdQuery], store)"
    and "action_create2 jp sv store f =
           (ErrorResult
              ''No rows with available inventory to create a draft order. Please check the preview.''
              (str_or (f_customerName f) ''Unknown Customer'') (str_or (f_customerId f) [])
              (previewRows_of jp (f_previewJson f)),
            (if str_or (f_customerId f) [] = [] then []
             else [B2BContextQuery (str_or (f_customerId f) [])]) @ [ShopIdQuery], store)"
  using assms
  by (simp_all add: action_create1_def action_create2_unfold create_from_nothing
        getB2BContext_trace)

text \<open>
  Claim C10, as stated, fails: the claim is about every create request whose
  \<^verbatim>\<open>previewJson\<close> is unusable, and one whose customer id is a file makes the action
  throw before it reads \<^verbatim>\<open>previewJson\<close>.
\<close>

theorem unreadable_preview_json_counterexample:
  "fd_previewJson ex_file_id_form = Absent
   \<and> create_intent1 ex_parse ex_services [] ex_file_id_form = Inl TypeError
   \<and> create_intent2 ex_parse ex_services [] ex_file_id_form = Inl TypeError"
  by (simp add: create_intent1_def create_intent2_def create_intent_def ex_file_id_form_def)

text \<open>
  Claim C10, amended. When the customer id is absent or a string and the
  \<^verbatim>\<open>previewJson\<close> form value is absent, is not a string, is the empty string or is
  not valid JSON, the action does not throw: the rows are the empty sequence and the
  confirm returns the error \<^verbatim>\<open>No rows with available inventory ...\<close> with an empty
  \<^verbatim>\<open>previewRows\<close>; the only calls made are the shop-id query and, in the second
  listing and for a non-empty customer id, the B2B context query, so no
  order-creation request is sent and no history record is written, and the store is
  unchanged.
\<close>

theorem unreadable_preview_json:
  assumes "fd_previewJson fd = Absent \<or> fd_previewJson fd = FileEntry
           \<or> fd_previewJson fd = Text []
           \<or> (\<exists>t. fd_previewJson fd = Text t \<and> jp t = None)"
    and "fd_customerId fd \<noteq> FileEntry"
    and "cn = str_or (fd_customerName fd) ''Unknown Customer''"
    and "ci = (case fd_customerId fd of Text t \<Rightarrow> t | _ \<Rightarrow> [])"
  shows "previewRows_of jp (fd_previewJson fd) = []
       \<and> create_intent1 jp sv store fd =
           Inr (ErrorResult
                  ''No rows with available inventory to create a draft order. Please check the preview.''
                  cn ci [],
                [ShopIdQuery], store)
       \<and> create_intent2 jp sv store fd =
           Inr (ErrorResult
                  ''No rows with available inventory to create a draft order. Please check the preview.''
                  cn ci [],
                (if ci = [] then [] else [B2BContextQuery ci]) @ [ShopIdQuery], store)"
proof -
  define f where "f = \<lparr>f_customerName = fd_customerName fd,
      f_customerId = (case fd_customerId fd of Text t \<Rightarrow> Some t | _ \<Rightarrow> None),
      f_previewJson = fd_previewJson fd\<rparr>"
  from assms(1) have e: "previewRows_of jp (fd_previewJson fd) = []"
    by (auto simp: previewRows_of_def)
  then have n: "includedRows (previewRows_of jp (f_previewJson f)) = []"
    by (simp add: includedRows_def f_def)
  have cn: "str_or (f_customerName f) ''Unknown Customer'' = cn"
    by (simp add: f_def assms(3))
  have ci: "str_or (f_customerId f) [] = ci"
    by (cases "fd_customerId fd") (simp_all add: f_def assms(4) str_or_def)
  have p: "previewRows_of jp (f_previewJson f) = []"
    by (simp add: f_def e)
  note a = action_create_nothing [OF n, of sv store, unfolded cn ci p]
  have "create_intent1 jp sv store fd = Inr (action_create1 jp sv store f)"
    "create_intent2 jp sv store fd = Inr (action_create2 jp sv store f)"
    by (simp_all add: create_intent1_def create_intent2_def
          create_intent_string_id [OF assms(2)] f_def)
  with a e show ?thesis
    by simp
qed

theorem unreadable_preview_json_witness:
  "fd_previewJson ex_posted_form = Absent
   \<and> fd_customerId ex_posted_form \<noteq> FileEntry
   \<and> create_intent1 ex_parse ex_services [] ex_posted_form =
       Inr (ErrorResult
              ''No rows with available inventory to create a draft order. Please check the preview.''
              ''Ann'' ''gid://shopify/Customer/7'' [],
            [ShopIdQuery], [])
   \<and> create_intent2 ex_parse ex_services [] ex_posted_form =
       Inr (ErrorResult
              ''No rows with available inventory to create a draft order. Please check the preview.''
              ''Ann'' ''gid://shopify/Customer/7'' [],
            [B2BContextQuery ''gid://shopify/Customer/7'', ShopIdQuery], [])"
proof -
  have t: "fd_previewJson ex_posted_form = Absent"
    and i: "fd_customerId ex_posted_form \<noteq> FileEntry"
    by (simp_all add: ex_posted_form_def)
  from t have h: "fd_previewJson ex_posted_form = Absent
           \<or> fd_previewJson ex_posted_form = FileEntry
           \<or> fd_previewJson ex_posted_form = Text []
           \<or> (\<exists>t. fd_previewJson ex_posted_form = Text t \<and> ex_parse t = None)"
    by blast
  have cn: "''Ann'' = str_or (fd_customerName ex_posted_form) ''Unknown Customer''"
    by (simp add: ex_posted_form_def str_or_def)
  have ci: "''gid://shopify/Customer/7'' =
              (case fd_customerId ex_posted_form of Text t \<Rightarrow> t | _ \<Rightarrow> [])"
    by (simp add: ex_posted_form_def)
  from unreadable_preview_json [OF h i cn ci, of ex_services "[]"] t i show ?thesis
    by simp
qed

subsection \<open>The row parser\<close>

lemma parsedRows_foldl:
  "foldl (\<lambda>acc r. case parse_row nts si qi r of None \<Rightarrow> acc | Some x \<Rightarrow> acc @ [x]) acc rows
     = acc @ List.map_filter (parse_row nts si qi) rows"
  by (induction rows arbitrary: acc) (simp_all add: List.map_filter_simps split: option.split)

lemma parsedRows_map_filter:
  "parsedRows nts si qi rows = List.map_filter (parse_row nts si qi) rows"
  by (simp add: parsedRows_def parsedRows_foldl)

lemma parse_row_string_sku:
  assumes "at_index r si = Some (CStr s)"
  shows "parse_row nts si qi r =
           (if trim s = [] then None
            else (case to_number (or_else (at_index r qi) (CNum (Fin 0))) of
                    Fin v \<Rightarrow> if 0 < v then Some (candidate (trim s) v) else None
                  | _ \<Rightarrow> None))"
proof (cases "s = []")
  case True
  with assms show ?thesis
    by (simp add: parse_row_def trim_def)
next
  case False
  with assms show ?thesis
    by (cases "to_number (or_else (at_index r qi) (CNum (Fin 0)))")
       (simp_all add: parse_row_def Let_def candidate_def)
qed

text \<open>Every parsed row has a non-empty sku and a positive requested quantity.\<close>

lemma parse_row_positive:
  assumes "parse_row nts si qi r = Some x"
  shows "0 < quantityRequested x" and "sku x \<noteq> []"
proof -
  let ?q = "to_number (or_else (at_index r qi) (CNum (Fin 0)))"
  from assms obtain v where v: "?q = Fin v" "\<not> v \<le> 0"
    and x: "x = candidate (trim (to_string nts (or_else (at_index r si) (CStr [])))) v"
    and s: "trim (to_string nts (or_else (at_index r si) (CStr []))) \<noteq> []"
    by (cases ?q) (auto simp: parse_row_def Let_def candidate_def split: if_splits)
  from v x show "0 < quantityRequested x"
    by (simp add: candidate_def)
  from s x show "sku x \<noteq> []"
    by (simp add: candidate_def)
qed

lemma parsedRows_positive:
  assumes "x \<in> set (parsedRows nts si qi rows)"
  shows "0 < quantityRequested x"
proof -
  from assms obtain r where "parse_row nts si qi r = Some x"
    by (auto simp: parsedRows_map_filter List.map_filter_def)
  then show ?thesis
    by (rule parse_row_positive)
qed

lemma header_spec:
  "headerRow nts [CStr ''SKU'', CStr ''Quantity''] = [''sku'', ''quantity'']"
proof -
  have "toLowerCase (trim ''SKU'') = ''sku''" "toLowerCase (trim ''Quantity'') = ''quantity''"
    by code_simp+
  then show ?thesis
    by (simp add: headerRow_def)
qed

text \<open>
  The parsing example of the specification holds: of the five data rows the first and
  the last survive, in that order.
\<close>

lemma parse_grid_spec_example:
  "parse_grid nts ex_grid_spec = Inr [candidate ''ABC123'' 5, candidate ''GHI111'' 2]"
proof -
  have i: "skuIndex [''sku'', ''quantity''] = Some 0" "qtyIndex [''sku'', ''quantity''] = Some 1"
    by (simp_all add: skuIndex_def qtyIndex_def)
  have n: "str_to_num ''5'' = Fin 5" "str_to_num ''3'' = Fin 3" "str_to_num ''-1'' = Fin (- 1)"
    "str_to_num ''0'' = Fin 0" "str_to_num ''2'' = Fin 2"
    by code_simp+
  have t: "trim ''ABC123'' = ''ABC123''" "trim ''XYZ999'' = ''XYZ999''"
    "trim ''DEF000'' = ''DEF000''" "trim ''GHI111'' = ''GHI111''" "trim [] = []"
    by (simp_all add: trim_def is_ws_def)
  have r: "parse_row nts 0 (Suc 0) [CStr ''ABC123'', CStr ''5''] = Some (candidate ''ABC123'' 5)"
    "parse_row nts 0 (Suc 0) [CStr [], CStr ''3''] = None"
    "parse_row nts 0 (Suc 0) [CStr ''XYZ999'', CStr ''-1''] = None"
    "parse_row nts 0 (Suc 0) [CStr ''DEF000'', CStr ''0''] = None"
    "parse_row nts 0 (Suc 0) [CStr ''GHI111'', CStr ''2''] = Some (candidate ''GHI111'' 2)"
    by (simp_all add: parse_row_string_sku at_index_def n t)
  show ?thesis
    by (simp add: parse_grid_def ex_grid_spec_def header_spec i parsedRows_map_filter
          List.map_filter_simps r)
qed

text \<open>
  Claim C3. The parsed rows are the surviving data rows in input order
  (\<open>parsedRows_map_filter\<close>), and a row whose sku cell is a string survives exactly
  when the trimmed string is not empty and the quantity is a positive finite number
  (\<open>parse_row_string_sku\<close>). The claim fails for a sku cell that holds the number 0:
  \<^verbatim>\<open>rawSku || ""\<close> replaces it by the empty string, so the row is dropped although the
  cell is not blank and the quantity is 5, and the file is reported to have no valid
  rows. The same cell as the string \<^verbatim>\<open>0\<close> is kept.
\<close>

theorem numeric_zero_sku_dropped:
  "parse_row nts 0 1 [CNum (Fin 0), CNum (Fin 5)] = None
   \<and> parse_grid nts ex_grid_zero_sku =
       Inl ''No valid rows found. Please check that SKU and Quantity columns are filled.''
   \<and> parse_row nts 0 1 [CStr ''0'', CNum (Fin 5)] = Some (candidate ''0'' 5)"
proof -
  have h: "headerRow nts [CStr ''sku'', CStr ''qty''] = [''sku'', ''qty'']"
  proof -
    have "toLowerCase (trim ''sku'') = ''sku''" "toLowerCase (trim ''qty'') = ''qty''"
      by code_simp+
    then show ?thesis
      by (simp add: headerRow_def)
  qed
  have i: "skuIndex [''sku'', ''qty''] = Some 0" "qtyIndex [''sku'', ''qty''] = Some 1"
    by (simp_all add: skuIndex_def qtyIndex_def)
  have r: "parse_row nts 0 (Suc 0) [CNum (Fin 0), CNum (Fin 5)] = None"
    by (simp add: parse_row_def at_index_def trim_def)
  have t: "trim ''0'' = ''0''"
    by (simp add: trim_def is_ws_def)
  have s: "parse_row nts 0 (Suc 0) [CStr ''0'', CNum (Fin 5)] = Some (candidate ''0'' 5)"
    by (simp add: parse_row_string_sku at_index_def t)
  show ?thesis
    by (simp add: r s parse_grid_def ex_grid_zero_sku_def h i parsedRows_map_filter
          List.map_filter_simps)
qed

theorem numeric_zero_sku_dropped_witness:
  "parse_row ex_number_text 0 1 [CNum (Fin 0), CNum (Fin 5)] = None
   \<and> parse_grid ex_number_text ex_grid_zero_sku =
       Inl ''No valid rows found. Please check that SKU and Quantity columns are filled.''"
  using numeric_zero_sku_dropped [of ex_number_text] by simp

end
